theory Spec2Isabelle
  imports Complex_Main
begin

section \<open>SafeReach: the tracking and geofence-arrival engine of frontend/app.js\<close>

text \<open>
  The JavaScript keeps its state in the global object \<open>AppState\<close>, the module variable
  \<open>wakeLock\<close>, and in what it has registered with the platform (geolocation watches, the
  background watcher, the poll timer, the wake lock). Every \<open>async\<close> function runs
  synchronously up to its next \<open>await\<close>; what follows the \<open>await\<close> runs later, when the
  platform settles the call, and any other event may run in between. The model therefore
  splits each \<open>async\<close> function at its \<open>await\<close>s: the part before suspends a continuation,
  the part after is the function that resumes it.
\<close>

subsection \<open>Numbers\<close>

text \<open>
  A JavaScript number is a binary64 value: a finite number, an infinity or NaN. The
  finite ones are kept as the real numbers they stand for; both zeros are \<open>Num 0\<close>.
  The update counter, which is only incremented and shown, is a \<open>nat\<close>.
\<close>

datatype number = Num real | PosInf | NegInf | NaN

text \<open>
  The comparison \<open>x <= y\<close> of the language: false as soon as one side is NaN,
  otherwise the order of the extended reals.
\<close>

fun le :: "number \<Rightarrow> number \<Rightarrow> bool" where
  "le NaN y = False"
| "le x NaN = False"
| "le NegInf y = True"
| "le x PosInf = True"
| "le PosInf y = False"
| "le x NegInf = False"
| "le (Num a) (Num b) = (a \<le> b)"

text \<open>\<open>Math.PI\<close> is the binary64 value 3.141592653589793.\<close>

definition Math_PI :: number where
  "Math_PI = Num (884279719003555 / 281474976710656)"

text \<open>
  The arithmetic itself is the engine's: the binary64 operations round, and
  \<open>Math.sin\<close>, \<open>Math.cos\<close>, \<open>Math.asin\<close> and \<open>Math.sqrt\<close> are whatever the engine
  computes. None of it is in the source, so the functions that compute take it as a
  parameter, and what is proved of them holds for every arithmetic.
\<close>

record math =
  minus64 :: "number \<Rightarrow> number \<Rightarrow> number"
  plus64 :: "number \<Rightarrow> number \<Rightarrow> number"
  times64 :: "number \<Rightarrow> number \<Rightarrow> number"
  divide64 :: "number \<Rightarrow> number \<Rightarrow> number"
  sin64 :: "number \<Rightarrow> number"
  cos64 :: "number \<Rightarrow> number"
  asin64 :: "number \<Rightarrow> number"
  sqrt64 :: "number \<Rightarrow> number"

subsection \<open>Utils.calculateDistance\<close>

text \<open>
  The expressions of the source, operation by operation and in its order of evaluation:
  \<open>x * Math.PI / 180\<close> multiplies first, and the product of the two cosines and the two
  sines associates to the left.
\<close>

definition calculateDistance :: "math \<Rightarrow> number \<Rightarrow> number \<Rightarrow> number \<Rightarrow> number \<Rightarrow> number" where
  "calculateDistance m lat1 lng1 lat2 lng2 =
     (let R = Num 6371000;
          dLat = divide64 m (times64 m (minus64 m lat2 lat1) Math_PI) (Num 180);
          dLng = divide64 m (times64 m (minus64 m lng2 lng1) Math_PI) (Num 180);
          a = plus64 m
                (times64 m (sin64 m (divide64 m dLat (Num 2))) (sin64 m (divide64 m dLat (Num 2))))
                (times64 m
                   (times64 m
                      (times64 m (cos64 m (divide64 m (times64 m lat1 Math_PI) (Num 180)))
                                 (cos64 m (divide64 m (times64 m lat2 Math_PI) (Num 180))))
                      (sin64 m (divide64 m dLng (Num 2))))
                   (sin64 m (divide64 m dLng (Num 2))));
          c = times64 m (Num 2) (asin64 m (sqrt64 m a))
      in times64 m R c)"

subsection \<open>Data\<close>

type_synonym handle = nat

record loc =
  lat :: number
  lng :: number
  accuracy :: number

record place =
  name :: string
  place_lat :: number
  place_lng :: number

text \<open>
  The only callback ever handed to \<open>LocationService.startTracking\<close> is the closure built in
  \<open>TrackingService.startTracking\<close> (directly, or read back from
  \<open>AppState.lastTrackingCallback\<close> after a truthiness test), so a callback is never
  \<open>null\<close> at a call and every subscription carries the same one.
\<close>

datatype callback = TripCallback

text \<open>What the page can and cannot do: the tests the source makes on its environment.\<close>

record env =
  capacitor :: bool      \<comment> \<open>\<open>isCapacitor()\<close>\<close>
  capGeo :: bool         \<comment> \<open>the Capacitor Geolocation plugin is there\<close>
  bgGeo :: bool          \<comment> \<open>the BackgroundGeolocation plugin is there\<close>
  navGeo :: bool         \<comment> \<open>\<open>navigator.geolocation\<close>\<close>
  wakeLockApi :: bool    \<comment> \<open>\<open>'wakeLock' in navigator\<close>\<close>
  capApp :: bool         \<comment> \<open>\<open>window.CapacitorApp\<close>\<close>
  arith :: math          \<comment> \<open>the engine's arithmetic\<close>

text \<open>How the platform settles an awaited call, and how a \<open>fetch\<close> ends.\<close>

datatype outcome = Fulfilled | Rejected

datatype http = HttpOk | HttpNotOk | NetworkError

text \<open>
  Calls on the collaborators (DOM, network, console), in the order they are made.
  An \<open>async\<close> function that throws rejects its promise; nobody handles the rejection of the
  trip callback, which is recorded as \<open>UnhandledRejection\<close>.
\<close>

datatype effect =
    ShowError string string
  | HideError string
  | ShowStep string
  | ShowFix loc nat
  | ShowTarget string number
  | ShowDistance number
  | ShowArrival nat string
  | ShowTrackingBanner
  | HideTrackingBanner
  | PostGps loc
  | PostSetDestination
  | PostSendMessage "string list"
  | PostTripReset
  | Console string
  | UnhandledRejection string

text \<open>The suspended rest of an \<open>async\<close> function, named after the call it awaits.\<close>

datatype cont =
    AwaitGpsSend loc
  | AwaitSendMessage
  | AwaitClearWatch handle
  | AwaitRemoveWatcher handle
  | AwaitAddWatcher callback
  | AwaitWatchPosition callback
  | AwaitSetDestination
  | AwaitPollPosition
  | AwaitWakeLock bool

text \<open>
  The fields of \<open>AppState\<close> that the tracking engine reads or writes, the module variable
  \<open>wakeLock\<close>, and the platform's side: the subscriptions, timers and locks it holds
  for the page, the next handle it gives out, the suspended continuations and the
  effects so far. Handles are truthy (timer ids are positive, plugin ids are non-empty
  strings), so \<open>None\<close> stands for \<open>null\<close> and for every falsy test.
\<close>

record world =
  currentLocation :: "loc option"
  destination :: "place option"
  selectedContacts :: "string list"
  tracking :: bool
  arrived :: bool
  geofenceRadius :: number
  distance :: "number option"
  updateCount :: nat
  watchId :: "handle option"
  lastTrackingCallback :: "callback option"
  pollIntervalId :: "handle option"
  backgroundTrackingActive :: bool
  backgroundWatcherId :: "handle option"
  wakeLock :: "handle option"
  browserWatches :: "handle list"
  capacitorWatches :: "handle list"
  backgroundWatchers :: "handle list"
  timers :: "handle list"
  wakeLocks :: "handle list"
  nextHandle :: handle
  pending :: "cont list"
  effects :: "effect list"

definition emit :: "effect \<Rightarrow> world \<Rightarrow> world" where
  "emit e w = w\<lparr>effects := effects w @ [e]\<rparr>"

definition suspend :: "cont \<Rightarrow> world \<Rightarrow> world" where
  "suspend c w = w\<lparr>pending := pending w @ [c]\<rparr>"

text \<open>
  Modelled from the spec: \<open>showTrackingBanner\<close> is called by the source but defined
  outside \<open>app.js\<close>. It shows the user-visible indication that tracking is active, and
  touches nothing else.
\<close>

definition showTrackingBanner :: "world \<Rightarrow> world" where [simp]:
  "showTrackingBanner w = emit ShowTrackingBanner w"

text \<open>
  Modelled from the spec: \<open>hideTrackingBanner\<close>, defined outside \<open>app.js\<close> as well,
  hides that indication.
\<close>

definition hideTrackingBanner :: "world \<Rightarrow> world" where [simp]:
  "hideTrackingBanner w = emit HideTrackingBanner w"

subsection \<open>The wake lock\<close>

text \<open>
  \<open>releaseWakeLock\<close>: \<open>wakeLock.release()\<close> returns a promise whose rejection is swallowed
  by \<open>.catch(()=>{})\<close>, and the \<open>finally\<close> clears the variable.
\<close>

definition releaseWakeLock :: "world \<Rightarrow> world" where
  "releaseWakeLock w =
     (case wakeLock w of
        None \<Rightarrow> w
      | Some h \<Rightarrow> w\<lparr>wakeLocks := removeAll h (wakeLocks w), wakeLock := None\<rparr>)"

definition wakeLock_settled :: "outcome \<Rightarrow> world \<Rightarrow> world" where
  "wakeLock_settled r w =
     (case r of
        Fulfilled \<Rightarrow>
          (let h = nextHandle w
           in emit (Console ''Wake Lock acquired'')
                (w\<lparr>wakeLocks := wakeLocks w @ [h], nextHandle := Suc h, wakeLock := Some h\<rparr>))
      | Rejected \<Rightarrow> emit (Console ''Wake Lock request failed'') w)"

subsection \<open>LocationService.stopTracking\<close>

text \<open>Lines 480 to 485: the browser watch is cleared and \<open>watchId\<close> is set to \<open>null\<close>.\<close>

definition stopTracking_finish :: "env \<Rightarrow> world \<Rightarrow> world" where
  "stopTracking_finish e w =
     (let w1 = (case watchId w of
                  Some h \<Rightarrow> if navGeo e then w\<lparr>browserWatches := removeAll h (browserWatches w)\<rparr> else w
                | None \<Rightarrow> w)
      in w1\<lparr>watchId := None\<rparr>)"

text \<open>Lines 463 to 478, up to the \<open>await\<close> of \<open>removeWatcher\<close> when there is one.\<close>

definition stopTracking_background :: "env \<Rightarrow> world \<Rightarrow> world" where
  "stopTracking_background e w =
     (if bgGeo e \<and> backgroundTrackingActive w then
        (case backgroundWatcherId w of
           Some h \<Rightarrow> suspend (AwaitRemoveWatcher h) w
         | None \<Rightarrow> stopTracking_finish e
                     (w\<lparr>backgroundTrackingActive := False, backgroundWatcherId := None\<rparr>))
      else stopTracking_finish e w)"

text \<open>
  After \<open>await BgGeo.removeWatcher\<close>: the two assignments follow the \<open>await\<close> inside the
  \<open>try\<close>, so a rejection skips them and only logs.
\<close>

definition removeWatcher_settled :: "env \<Rightarrow> handle \<Rightarrow> outcome \<Rightarrow> world \<Rightarrow> world" where
  "removeWatcher_settled e h r w =
     (case r of
        Fulfilled \<Rightarrow>
          stopTracking_finish e
            ((emit (Console ''Background geolocation stopped'')
                (w\<lparr>backgroundWatchers := removeAll h (backgroundWatchers w)\<rparr>))
             \<lparr>backgroundTrackingActive := False, backgroundWatcherId := None\<rparr>)
      | Rejected \<Rightarrow>
          stopTracking_finish e (emit (Console ''Error stopping background geolocation'') w))"

text \<open>After \<open>await CapGeo.clearWatch\<close>.\<close>

definition clearWatch_settled :: "env \<Rightarrow> handle \<Rightarrow> outcome \<Rightarrow> world \<Rightarrow> world" where
  "clearWatch_settled e h r w =
     stopTracking_background e
       (case r of
          Fulfilled \<Rightarrow> emit (Console ''Cleared Capacitor watch'')
                         (w\<lparr>capacitorWatches := removeAll h (capacitorWatches w)\<rparr>)
        | Rejected \<Rightarrow> emit (Console ''Error clearing watch'') w)"

text \<open>\<open>stopTracking\<close> from its first line to its first \<open>await\<close>.\<close>

definition stopTracking :: "env \<Rightarrow> world \<Rightarrow> world" where
  "stopTracking e w =
     (let w0 = emit (Console ''Stopping all tracking...'') w;
          w1 = (case pollIntervalId w0 of
                  Some t \<Rightarrow> w0\<lparr>timers := removeAll t (timers w0), pollIntervalId := None\<rparr>
                | None \<Rightarrow> w0)
      in case watchId w1 of
           Some h \<Rightarrow> if capacitor e \<and> capGeo e then suspend (AwaitClearWatch h) w1
                     else stopTracking_background e w1
         | None \<Rightarrow> stopTracking_background e w1)"

subsection \<open>LocationService.startTracking and startCapacitorTracking\<close>

text \<open>
  Lines 329 to 351: the callback is remembered, a poll timer that is still registered is
  cleared, and a new 15-second timer is registered.
\<close>

definition startCapacitorTracking_poll :: "callback \<Rightarrow> world \<Rightarrow> world" where
  "startCapacitorTracking_poll cb w =
     (let w1 = w\<lparr>lastTrackingCallback := Some cb\<rparr>;
          w2 = (case pollIntervalId w1 of
                  Some t \<Rightarrow> w1\<lparr>timers := removeAll t (timers w1)\<rparr>
                | None \<Rightarrow> w1);
          t = nextHandle w2
      in w2\<lparr>timers := timers w2 @ [t], nextHandle := Suc t, pollIntervalId := Some t\<rparr>)"

text \<open>
  Lines 300 to 327 are reached with the local \<open>watcherId\<close> still \<open>null\<close>: the foreground
  watch is requested and awaited.
\<close>

definition startCapacitorTracking_foreground :: "callback \<Rightarrow> world \<Rightarrow> world" where
  "startCapacitorTracking_foreground cb w = suspend (AwaitWatchPosition cb) w"

text \<open>
  After \<open>await CapGeo.watchPosition\<close>: the handle is stored and the poll follows; when the
  call is rejected the \<open>catch\<close> shows the error and returns \<open>null\<close>, before the poll.
\<close>

definition watchPosition_settled :: "callback \<Rightarrow> outcome \<Rightarrow> world \<Rightarrow> world" where
  "watchPosition_settled cb r w =
     (case r of
        Fulfilled \<Rightarrow>
          (let h = nextHandle w
           in startCapacitorTracking_poll cb
                (w\<lparr>capacitorWatches := capacitorWatches w @ [h], nextHandle := Suc h,
                   watchId := Some h\<rparr>))
      | Rejected \<Rightarrow>
          emit (ShowError ''trackingError'' ''Failed to start tracking: '')
            (emit (Console ''Error starting Capacitor tracking'') w))"

text \<open>
  After \<open>await BgGeo.addWatcher\<close> inside \<open>setupBackgroundTracking\<close>: on success the watcher
  is recorded, the banner is shown, \<open>watcherId\<close> is truthy and the foreground watch is
  skipped; on rejection \<open>setupBackgroundTracking\<close> rethrows, \<open>startCapacitorTracking\<close>
  catches and goes on to the foreground watch.
\<close>

definition addWatcher_settled :: "callback \<Rightarrow> outcome \<Rightarrow> world \<Rightarrow> world" where
  "addWatcher_settled cb r w =
     (case r of
        Fulfilled \<Rightarrow>
          (let h = nextHandle w;
               w1 = w\<lparr>backgroundWatchers := backgroundWatchers w @ [h], nextHandle := Suc h,
                      backgroundWatcherId := Some h, backgroundTrackingActive := True\<rparr>;
               w2 = showTrackingBanner
                      (emit (Console ''Background geolocation watcher added'') w1);
               w3 = emit (Console ''Background tracking started successfully'') w2
           in startCapacitorTracking_poll cb w3)
      | Rejected \<Rightarrow>
          startCapacitorTracking_foreground cb
            (emit (Console ''Background tracking failed, using foreground'')
               (emit (Console ''Failed to setup background tracking'') w)))"

definition startCapacitorTracking :: "env \<Rightarrow> callback \<Rightarrow> world \<Rightarrow> world" where
  "startCapacitorTracking e cb w =
     (if \<not> capGeo e then
        emit (ShowError ''trackingError'' ''Geolocation plugin not available'') w
      else if bgGeo e then
        suspend (AwaitAddWatcher cb) (emit (Console ''Configuring background geolocation...'') w)
      else
        startCapacitorTracking_foreground cb
          (emit (Console ''BackgroundGeolocation plugin not available'') w))"

text \<open>
  \<open>LocationService.startTracking\<close>: the Capacitor path, or the browser's
  \<open>watchPosition\<close>, which returns its handle at once.
\<close>

definition LocationService_startTracking :: "env \<Rightarrow> callback \<Rightarrow> world \<Rightarrow> world" where
  "LocationService_startTracking e cb w =
     (if capacitor e \<and> capGeo e then startCapacitorTracking e cb w
      else if \<not> navGeo e then
        emit (ShowError ''trackingError'' ''Geolocation is not supported'') w
      else
        (let h = nextHandle w
         in w\<lparr>browserWatches := browserWatches w @ [h], nextHandle := Suc h,
              watchId := Some h, lastTrackingCallback := Some cb\<rparr>))"

subsection \<open>TrackingService: arrival, the trip callback, start and cancel\<close>

text \<open>
  The \<open>catch\<close> of \<open>handleArrival\<close>: the failure is shown and the completion step is shown
  all the same.
\<close>

definition handleArrival_failed :: "world \<Rightarrow> world" where
  "handleArrival_failed w =
     emit (ShowStep ''complete'')
       (emit (ShowError ''trackingError'' ''Arrived but failed to send notifications: '')
          (emit (Console ''Error sending message'') w))"

text \<open>
  \<open>handleArrival\<close> up to \<open>await fetch\<close>. \<open>stopTracking\<close> is called without \<open>await\<close>, so only
  its first part runs here. Building the message reads \<open>AppState.destination.name\<close>,
  which throws into the \<open>catch\<close> when there is no destination.
\<close>

definition handleArrival :: "env \<Rightarrow> world \<Rightarrow> world" where
  "handleArrival e w =
     (if arrived w then w
      else
        (let w1 = w\<lparr>arrived := True, tracking := False\<rparr>;
             w2 = stopTracking e w1;
             w3 = releaseWakeLock w2;
             w4 = hideTrackingBanner w3
         in case destination w4 of
              None \<Rightarrow> handleArrival_failed w4
            | Some d \<Rightarrow> suspend AwaitSendMessage (emit (PostSendMessage (selectedContacts w4)) w4)))"

text \<open>
  After \<open>await fetch\<close> of \<open>/send-message\<close>. The completion screen reads
  \<open>AppState.destination.name\<close> inside the \<open>try\<close>.
\<close>

definition sendMessage_settled :: "http \<Rightarrow> world \<Rightarrow> world" where
  "sendMessage_settled r w =
     (case r of
        HttpOk \<Rightarrow>
          (case destination w of
             None \<Rightarrow> handleArrival_failed w
           | Some d \<Rightarrow>
               emit (ShowStep ''complete'')
                 (emit (ShowArrival (length (selectedContacts w)) (name d)) w))
      | HttpNotOk \<Rightarrow> handleArrival_failed w
      | NetworkError \<Rightarrow> handleArrival_failed w)"

text \<open>
  The callback of lines 988 to 1010, up to \<open>await sendLocationToServer\<close>:
  \<open>updateTrackingUI\<close> writes the fix and the counter, then reads
  \<open>AppState.destination.name\<close>.
\<close>

definition tripCallback :: "loc \<Rightarrow> world \<Rightarrow> world" where
  "tripCallback l w =
     (let w1 = emit (ShowFix l (updateCount w)) w
      in case destination w1 of
           None \<Rightarrow> emit (UnhandledRejection ''TypeError'') w1
         | Some d \<Rightarrow>
             suspend (AwaitGpsSend l)
               (emit (PostGps l) (emit (ShowTarget (name d) (geofenceRadius w1)) w1)))"

text \<open>
  The rest of the callback: \<open>sendLocationToServer\<close> never throws (it only logs), then the
  distance is computed and shown, and the arrival test is made.
\<close>

definition tripCallback_resume :: "env \<Rightarrow> loc \<Rightarrow> world \<Rightarrow> world" where
  "tripCallback_resume e l w =
     (case destination w of
        None \<Rightarrow> emit (UnhandledRejection ''TypeError'') w
      | Some d \<Rightarrow>
          (let dist = calculateDistance (arith e) (lat l) (lng l) (place_lat d) (place_lng d);
               w1 = emit (ShowDistance dist) (w\<lparr>distance := Some dist\<rparr>)
           in if le dist (geofenceRadius w1) \<and> \<not> arrived w1 then handleArrival e w1 else w1))"

text \<open>
  The three places where a fix enters: the browser watch callback (lines 235 to 245),
  \<open>applyPosition\<close> (lines 269 to 280, used by the Capacitor watch and by the poll) and the
  background watcher's callback (lines 415 to 426).
\<close>

definition browserWatchCallback :: "loc \<Rightarrow> world \<Rightarrow> world" where
  "browserWatchCallback l w =
     tripCallback l (w\<lparr>currentLocation := Some l, updateCount := Suc (updateCount w)\<rparr>)"

definition applyPosition :: "loc option \<Rightarrow> world \<Rightarrow> world" where
  "applyPosition p w =
     (case p of
        None \<Rightarrow> w
      | Some l \<Rightarrow> tripCallback l (w\<lparr>currentLocation := Some l, updateCount := Suc (updateCount w)\<rparr>))"

definition backgroundCallback :: "loc option \<Rightarrow> world \<Rightarrow> world" where
  "backgroundCallback p w =
     (case p of
        None \<Rightarrow> w
      | Some l \<Rightarrow>
          (let w1 = emit (Console ''Background location update'') w
           in tripCallback l
                (w1\<lparr>currentLocation := Some l, updateCount := Suc (updateCount w1)\<rparr>)))"

text \<open>\<open>requestWakeLock\<close>; the flag says whether the visibility handler is the caller.\<close>

definition visibility_restart :: "env \<Rightarrow> world \<Rightarrow> world" where
  "visibility_restart e w =
     (case watchId w of
        Some h \<Rightarrow> w
      | None \<Rightarrow> (case lastTrackingCallback w of
                   None \<Rightarrow> w
                 | Some cb \<Rightarrow> LocationService_startTracking e cb w))"

definition requestWakeLock :: "env \<Rightarrow> bool \<Rightarrow> world \<Rightarrow> world" where
  "requestWakeLock e fromVisibility w =
     (if wakeLockApi e then suspend (AwaitWakeLock fromVisibility) w
      else if fromVisibility then visibility_restart e w
      else w)"

text \<open>The \<open>visibilitychange\<close> listener (lines 552 to 561) and \<open>appStateChange\<close> (1139 to 1145).\<close>

definition onVisible :: "env \<Rightarrow> world \<Rightarrow> world" where
  "onVisible e w = (if tracking w then requestWakeLock e True w else w)"

definition onAppStateChange :: "env \<Rightarrow> bool \<Rightarrow> world \<Rightarrow> world" where
  "onAppStateChange e isActive w =
     (let w1 = emit (Console ''App state changed'') w
      in if isActive \<and> tracking w1 then
           (case lastTrackingCallback w1 of
              None \<Rightarrow> w1
            | Some cb \<Rightarrow> LocationService_startTracking e cb w1)
         else w1)"

text \<open>\<open>TrackingService.startTracking\<close> up to \<open>await fetch\<close> of \<open>/trip/set-destination\<close>.\<close>

definition TrackingService_startTracking :: "world \<Rightarrow> world" where
  "TrackingService_startTracking w =
     (if destination w = None then
        emit (ShowError ''messageError'' ''Please select a destination first'') w
      else if selectedContacts w = [] then
        emit (ShowError ''messageError'' ''Please select at least one contact'') w
      else
        suspend AwaitSetDestination (emit PostSetDestination (emit (HideError ''messageError'') w)))"

definition setDestination_failed :: "world \<Rightarrow> world" where
  "setDestination_failed w =
     (emit (ShowError ''messageError'' ''Error starting tracking: '') w)\<lparr>tracking := False\<rparr>"

definition setDestination_settled :: "env \<Rightarrow> http \<Rightarrow> world \<Rightarrow> world" where
  "setDestination_settled e r w =
     (case r of
        HttpOk \<Rightarrow>
          (let w1 = emit (ShowStep ''tracking'') (w\<lparr>tracking := True\<rparr>);
               w2 = w1\<lparr>updateCount := 0\<rparr>;
               w3 = LocationService_startTracking e TripCallback w2;
               w4 = requestWakeLock e False w3
           in showTrackingBanner w4)
      | HttpNotOk \<Rightarrow> setDestination_failed w
      | NetworkError \<Rightarrow> setDestination_failed w)"

definition resetApp :: "world \<Rightarrow> world" where
  "resetApp w =
     (let w1 = w\<lparr>currentLocation := None, destination := None, tracking := False,
                arrived := False, distance := None, updateCount := 0\<rparr>;
          w2 = releaseWakeLock w1;
          w3 = hideTrackingBanner w2
      in emit (ShowStep ''permission'') w3)"

definition cancelTrip :: "env \<Rightarrow> world \<Rightarrow> world" where
  "cancelTrip e w =
     (let w1 = stopTracking e w;
          w2 = releaseWakeLock w1;
          w3 = hideTrackingBanner w2;
          w4 = emit PostTripReset w3
      in resetApp w4)"

subsection \<open>Events\<close>

text \<open>
  What can happen next: the platform delivers a fix or an error on a subscription it
  still holds, the poll timer fires, an awaited call is settled, the page becomes
  visible or active, or the user presses a button.
\<close>

datatype event =
    BrowserWatchFix handle loc
  | BrowserWatchError handle
  | CapacitorWatchFix handle "loc option"
  | CapacitorWatchError handle
  | BackgroundFix handle "loc option"
  | BackgroundError handle bool
  | PollTick handle
  | PollPositionSettled "loc option"
  | PollPositionFailed
  | GpsSendSettled loc http
  | SendMessageSettled http
  | SetDestinationSettled http
  | ClearWatchSettled handle outcome
  | RemoveWatcherSettled handle outcome
  | AddWatcherSettled callback outcome
  | WatchPositionSettled callback outcome
  | WakeLockSettled bool outcome
  | Visible
  | AppStateChange bool
  | StartTrackingClicked
  | CancelTripConfirmed
  | StartNewJourneyClicked

text \<open>A settled call resumes its continuation once; without one nothing happens.\<close>

definition settle :: "cont \<Rightarrow> (world \<Rightarrow> world) \<Rightarrow> world \<Rightarrow> world" where
  "settle c f w =
     (if c \<in> set (pending w) then f (w\<lparr>pending := remove1 c (pending w)\<rparr>) else w)"

text \<open>The error callbacks of the three subscriptions, and the poll timer's tick.\<close>

definition browserWatchError :: "world \<Rightarrow> world" where
  "browserWatchError w =
     emit (ShowError ''trackingError'' ''Location tracking error: '')
       (emit (Console ''Tracking error'') w)"

definition capacitorWatchError :: "world \<Rightarrow> world" where
  "capacitorWatchError w =
     (let w1 = emit (Console ''Capacitor tracking error'') w
      in if \<not> backgroundTrackingActive w1
         then emit (ShowError ''trackingError'' ''Location tracking error: '') w1
         else w1)"

definition backgroundError :: "bool \<Rightarrow> world \<Rightarrow> world" where
  "backgroundError notAuthorized w =
     (let w1 = (if notAuthorized
                then emit (ShowError ''trackingError'' ''Please enable background location in settings'')
                       (emit (Console ''Background location not authorized'') w)
                else w)
      in emit (Console ''Background geolocation error'') w1)"

definition pollTick :: "env \<Rightarrow> world \<Rightarrow> world" where
  "pollTick e w = (if \<not> capGeo e then w else suspend AwaitPollPosition w)"

definition gpsSend_log :: "http \<Rightarrow> world \<Rightarrow> world" where
  "gpsSend_log r w =
     (case r of
        HttpOk \<Rightarrow> emit (Console ''Location sent to server'') w
      | HttpNotOk \<Rightarrow> w
      | NetworkError \<Rightarrow> emit (Console ''Error sending location'') w)"

fun step :: "env \<Rightarrow> event \<Rightarrow> world \<Rightarrow> world" where
  "step e (BrowserWatchFix h l) w =
     (if h \<in> set (browserWatches w) then browserWatchCallback l w else w)"
| "step e (BrowserWatchError h) w =
     (if h \<in> set (browserWatches w) then browserWatchError w else w)"
| "step e (CapacitorWatchFix h p) w =
     (if h \<in> set (capacitorWatches w) then applyPosition p w else w)"
| "step e (CapacitorWatchError h) w =
     (if h \<in> set (capacitorWatches w) then capacitorWatchError w else w)"
| "step e (BackgroundFix h p) w =
     (if h \<in> set (backgroundWatchers w) then backgroundCallback p w else w)"
| "step e (BackgroundError h na) w =
     (if h \<in> set (backgroundWatchers w) then backgroundError na w else w)"
| "step e (PollTick t) w =
     (if t \<in> set (timers w) then pollTick e w else w)"
| "step e (PollPositionSettled p) w = settle AwaitPollPosition (applyPosition p) w"
| "step e PollPositionFailed w =
     settle AwaitPollPosition (emit (Console ''Periodic location fetch failed'')) w"
| "step e (GpsSendSettled l r) w =
     settle (AwaitGpsSend l) (\<lambda>w. tripCallback_resume e l (gpsSend_log r w)) w"
| "step e (SendMessageSettled r) w = settle AwaitSendMessage (sendMessage_settled r) w"
| "step e (SetDestinationSettled r) w =
     settle AwaitSetDestination (setDestination_settled e r) w"
| "step e (ClearWatchSettled h r) w = settle (AwaitClearWatch h) (clearWatch_settled e h r) w"
| "step e (RemoveWatcherSettled h r) w =
     settle (AwaitRemoveWatcher h) (removeWatcher_settled e h r) w"
| "step e (AddWatcherSettled cb r) w = settle (AwaitAddWatcher cb) (addWatcher_settled cb r) w"
| "step e (WatchPositionSettled cb r) w =
     settle (AwaitWatchPosition cb) (watchPosition_settled cb r) w"
| "step e (WakeLockSettled fromVisibility r) w =
     settle (AwaitWakeLock fromVisibility)
       (\<lambda>w. if fromVisibility then visibility_restart e (wakeLock_settled r w)
            else wakeLock_settled r w) w"
| "step e Visible w = onVisible e w"
| "step e (AppStateChange isActive) w =
     (if capacitor e \<and> capApp e then onAppStateChange e isActive w else w)"
| "step e StartTrackingClicked w = TrackingService_startTracking w"
| "step e CancelTripConfirmed w = cancelTrip e w"
| "step e StartNewJourneyClicked w = resetApp w"

fun run :: "env \<Rightarrow> event list \<Rightarrow> world \<Rightarrow> world" where
  "run e [] w = w"
| "run e (ev # evs) w = run e evs (step e ev w)"

text \<open>The state when the page has loaded: the literal \<open>AppState\<close> and nothing registered.\<close>

definition AppState_init :: world where
  "AppState_init =
     \<lparr>currentLocation = None, destination = None, selectedContacts = [],
      tracking = False, arrived = False, geofenceRadius = Num 500, distance = None,
      updateCount = 0, watchId = None, lastTrackingCallback = None,
      pollIntervalId = None, backgroundTrackingActive = False,
      backgroundWatcherId = None, wakeLock = None, browserWatches = [],
      capacitorWatches = [], backgroundWatchers = [], timers = [], wakeLocks = [],
      nextHandle = 1, pending = [], effects = []\<rparr>"

subsection \<open>What is observed of the arrival handler\<close>

text \<open>
  The work of \<open>handleArrival\<close> is seen in the effects: the call of \<open>stopTracking\<close> (its
  first log line), the arrival message posted to \<open>/send-message\<close>, and the completion
  step. A trip lasts until the user cancels it or starts a new journey; both reset
  \<open>AppState.arrived\<close>.
\<close>

fun isArrivalSend :: "effect \<Rightarrow> bool" where
  "isArrivalSend (PostSendMessage rs) = True"
| "isArrivalSend _ = False"

definition arrivalSends :: "world \<Rightarrow> nat" where
  "arrivalSends w = length (filter isArrivalSend (effects w))"

definition stopCalls :: "world \<Rightarrow> nat" where
  "stopCalls w = count_list (effects w) (Console ''Stopping all tracking...'')"

definition completions :: "world \<Rightarrow> nat" where
  "completions w = count_list (effects w) (ShowStep ''complete'')"

definition arrivalsAwaiting :: "world \<Rightarrow> nat" where
  "arrivalsAwaiting w = count_list (pending w) AwaitSendMessage"

fun in_trip :: "event \<Rightarrow> bool" where
  "in_trip CancelTripConfirmed = False"
| "in_trip StartNewJourneyClicked = False"
| "in_trip _ = True"

text \<open>
  How one event can move these observations: not at all (\<open>unchanged\<close>, with a settled
  arrival message turning into a completion), or by the one arrival that sets the flag
  (\<open>arrives\<close>).
\<close>

definition unchanged :: "world \<Rightarrow> world \<Rightarrow> bool" where
  "unchanged w w' \<longleftrightarrow> arrived w' = arrived w \<and> arrivalSends w' = arrivalSends w \<and>
     stopCalls w' = stopCalls w \<and>
     completions w' + arrivalsAwaiting w' = completions w + arrivalsAwaiting w \<and>
     completions w \<le> completions w'"

definition arrives :: "world \<Rightarrow> world \<Rightarrow> bool" where
  "arrives w w' \<longleftrightarrow> \<not> arrived w \<and> arrived w' \<and> arrivalSends w' \<le> arrivalSends w + 1 \<and>
     stopCalls w' = stopCalls w + 1 \<and>
     completions w' + arrivalsAwaiting w' = completions w + arrivalsAwaiting w + 1 \<and>
     completions w \<le> completions w'"

definition advance :: "world \<Rightarrow> world \<Rightarrow> bool" where
  "advance w w' \<longleftrightarrow> unchanged w w' \<or> arrives w w'"

subsection \<open>Concrete trips\<close>

text \<open>
  The runs below need the engine's arithmetic at their own operands only. \<open>sampleMath\<close>
  holds binary64 there: the operations that are exact (with 0, 1 and 2, negation from 0,
  halving), the values \<open>sin 0 = 0\<close>, \<open>cos 0 = 1\<close>, \<open>asin 0 = 0\<close>, \<open>sqrt 0 = 0\<close>, and
  the correctly rounded results at the operands of one fix, at longitude
  0.0008993216059187306 on the equator, whose distance to latitude 0, longitude 0 the
  engine computes as exactly 100. Every other operand has no entry and gives NaN; no run
  below leaves the sample.
\<close>

fun sample_minus :: "number \<Rightarrow> number \<Rightarrow> number" where
  "sample_minus (Num a) (Num b) = (if a = 0 then Num (- b) else NaN)"
| "sample_minus x y = NaN"

fun sample_plus :: "number \<Rightarrow> number \<Rightarrow> number" where
  "sample_plus (Num a) (Num b) = (if a = 0 then Num b else NaN)"
| "sample_plus x y = NaN"

fun sample_times :: "number \<Rightarrow> number \<Rightarrow> number" where
  "sample_times (Num a) (Num b) =
     (if a = 0 \<or> b = 0 then Num 0
      else if a = 1 then Num b
      else if a = 2 then Num (2 * b)
      else if a = - (4147388876085075 / 4611686018427387904) \<and>
              b = 884279719003555 / 281474976710656
        then Num (- (3257351606172225 / 1152921504606846976))
      else if a = - (4632677839841831 / 590295810358705651712) \<and>
              b = - (4632677839841831 / 590295810358705651712)
        then Num (4765455578539595 / 77371252455336267181195264)
      else if a = 6371000 \<and> b = 4632677839889387 / 295147905179352825856
        then Num 100
      else NaN)"
| "sample_times x y = NaN"

fun sample_divide :: "number \<Rightarrow> number \<Rightarrow> number" where
  "sample_divide (Num a) (Num b) =
     (if b = 2 then Num (a / 2)
      else if a = 0 \<and> b = 180 then Num 0
      else if a = - (3257351606172225 / 1152921504606846976) \<and> b = 180
        then Num (- (4632677839889387 / 295147905179352825856))
      else NaN)"
| "sample_divide x y = NaN"

fun sample_sin :: "number \<Rightarrow> number" where
  "sample_sin (Num a) =
     (if a = 0 then Num 0
      else if a = - (4632677839889387 / 590295810358705651712)
        then Num (- (4632677839841831 / 590295810358705651712))
      else NaN)"
| "sample_sin x = NaN"

fun sample_cos :: "number \<Rightarrow> number" where
  "sample_cos (Num a) = (if a = 0 then Num 1 else NaN)"
| "sample_cos x = NaN"

fun sample_sqrt :: "number \<Rightarrow> number" where
  "sample_sqrt (Num a) =
     (if a = 0 then Num 0
      else if a = 4765455578539595 / 77371252455336267181195264
        then Num (4632677839841831 / 590295810358705651712)
      else NaN)"
| "sample_sqrt x = NaN"

fun sample_asin :: "number \<Rightarrow> number" where
  "sample_asin (Num a) =
     (if a = 0 then Num 0
      else if a = 4632677839841831 / 590295810358705651712
        then Num (4632677839889387 / 590295810358705651712)
      else NaN)"
| "sample_asin x = NaN"

definition sampleMath :: math where
  "sampleMath = \<lparr>minus64 = sample_minus, plus64 = sample_plus, times64 = sample_times,
     divide64 = sample_divide, sin64 = sample_sin, cos64 = sample_cos,
     asin64 = sample_asin, sqrt64 = sample_sqrt\<rparr>"

text \<open>
  A destination at latitude 0, longitude 0, one selected contact, and a fix at the
  destination itself. In the browser the watch gets handle 1, the first the platform
  gives out.
\<close>

definition origin :: place where
  "origin = \<lparr>name = ''Home'', place_lat = Num 0, place_lng = Num 0\<rparr>"

definition atOrigin :: loc where
  "atOrigin = \<lparr>lat = Num 0, lng = Num 0, accuracy = Num 5\<rparr>"

definition browserEnv :: env where
  "browserEnv = \<lparr>capacitor = False, capGeo = False, bgGeo = False, navGeo = True,
     wakeLockApi = False, capApp = False, arith = sampleMath\<rparr>"

definition readyToStart :: world where
  "readyToStart = AppState_init\<lparr>destination := Some origin, selectedContacts := [''+15550100'']\<rparr>"

text \<open>
  The trip is started, two fixes inside the geofence are delivered before the first
  callback resumes, and the first callback resumes and arrives.
\<close>

definition tripUntilArrival :: "event list" where
  "tripUntilArrival = [StartTrackingClicked, SetDestinationSettled HttpOk,
     BrowserWatchFix 1 atOrigin, BrowserWatchFix 1 atOrigin,
     GpsSendSettled atOrigin HttpOk]"

text \<open>Then the second callback resumes, and the arrival message is answered.\<close>

definition tripAfterArrival :: "event list" where
  "tripAfterArrival = [GpsSendSettled atOrigin HttpOk, SendMessageSettled HttpOk]"

text \<open>
  A fix on the equator about 500 m east of the destination, at longitude
  0.004496608029593653.
\<close>

definition at500 :: loc where
  "at500 = \<lparr>lat = Num 0, lng = Num (648029511888293 / 144115188075855872), accuracy = Num 5\<rparr>"

text \<open>
  The fix at longitude 0.0008993216059187306, a geofence radius of 100 m, as the radius
  control sets it, and a trip that has received this fix and not yet resumed its
  callback.
\<close>

definition at100 :: loc where
  "at100 = \<lparr>lat = Num 0, lng = Num (4147388876085075 / 4611686018427387904),
     accuracy = Num 5\<rparr>"

definition readyAt100 :: world where
  "readyAt100 = readyToStart\<lparr>geofenceRadius := Num 100\<rparr>"

definition at100Trip :: "event list" where
  "at100Trip = [StartTrackingClicked, SetDestinationSettled HttpOk, BrowserWatchFix 1 at100]"

definition at500Trip :: "event list" where
  "at500Trip = [StartTrackingClicked, SetDestinationSettled HttpOk, BrowserWatchFix 1 at500]"

text \<open>The same page with a last known position, as the permission step leaves it.\<close>

definition located :: world where
  "located = readyToStart\<lparr>currentLocation := Some atOrigin\<rparr>"

definition startAccepted :: "event list" where
  "startAccepted = [StartTrackingClicked, SetDestinationSettled HttpOk]"

text \<open>
  The native app, without and with the background plugin. The foreground watch gets
  handle 1 and the poll timer handle 2; with the plugin the background watcher gets 1,
  the timer 2 and the wake lock 3.
\<close>

definition capacitorEnv :: env where
  "capacitorEnv = \<lparr>capacitor = True, capGeo = True, bgGeo = False, navGeo = True,
     wakeLockApi = False, capApp = True, arith = sampleMath\<rparr>"

definition backgroundEnv :: env where
  "backgroundEnv = \<lparr>capacitor = True, capGeo = True, bgGeo = True, navGeo = True,
     wakeLockApi = True, capApp = True, arith = sampleMath\<rparr>"

text \<open>
  A trip that arrives on its first fix: \<open>clearWatch\<close> has been called and not yet answered,
  so the watch can still deliver.
\<close>

definition capacitorArrival :: "event list" where
  "capacitorArrival = [StartTrackingClicked, SetDestinationSettled HttpOk,
     WatchPositionSettled TripCallback Fulfilled, CapacitorWatchFix 1 (Some atOrigin),
     GpsSendSettled atOrigin HttpOk]"

text \<open>A trip that is cancelled, in the same way.\<close>

definition capacitorCancel :: "event list" where
  "capacitorCancel = [StartTrackingClicked, SetDestinationSettled HttpOk,
     WatchPositionSettled TripCallback Fulfilled, CancelTripConfirmed]"

text \<open>A start where the foreground watch cannot be set up.\<close>

definition capacitorStartFails :: "event list" where
  "capacitorStartFails = [StartTrackingClicked, SetDestinationSettled HttpOk,
     WatchPositionSettled TripCallback Rejected]"

text \<open>A cancelled trip whose \<open>removeWatcher\<close> call the platform rejects, or accepts.\<close>

definition backgroundCancelRejected :: "event list" where
  "backgroundCancelRejected = [StartTrackingClicked, SetDestinationSettled HttpOk,
     AddWatcherSettled TripCallback Fulfilled, WakeLockSettled False Fulfilled,
     CancelTripConfirmed, RemoveWatcherSettled 1 Rejected]"

definition backgroundCancelAccepted :: "event list" where
  "backgroundCancelAccepted = [StartTrackingClicked, SetDestinationSettled HttpOk,
     AddWatcherSettled TripCallback Fulfilled, WakeLockSettled False Fulfilled,
     CancelTripConfirmed, RemoveWatcherSettled 1 Fulfilled]"

text \<open>A running trip, and the app becomes active again.\<close>

definition foregroundTwice :: "event list" where
  "foregroundTwice = [StartTrackingClicked, SetDestinationSettled HttpOk,
     WatchPositionSettled TripCallback Fulfilled, AppStateChange True,
     WatchPositionSettled TripCallback Fulfilled]"

text \<open>The same with the background watcher: watcher 1 and timer 2, then watcher 3 and timer 4.\<close>

definition backgroundTwice :: "event list" where
  "backgroundTwice = [StartTrackingClicked, SetDestinationSettled HttpOk,
     AddWatcherSettled TripCallback Fulfilled, AppStateChange True,
     AddWatcherSettled TripCallback Fulfilled]"

section \<open>Properties\<close>

subsection \<open>The sampled arithmetic\<close>

lemma sample_distance_origin:
  "calculateDistance sampleMath (Num 0) (Num 0) (Num 0) (Num 0) = Num 0"
  by (simp add: calculateDistance_def sampleMath_def Math_PI_def Let_def)

lemma sample_distance_at100:
  "calculateDistance sampleMath (Num 0) (Num (4147388876085075 / 4611686018427387904))
     (Num 0) (Num 0) = Num 100"
  by (simp add: calculateDistance_def sampleMath_def Math_PI_def Let_def)

subsection \<open>Releasing the wake lock\<close>

text \<open>
  C10. After any call of \<open>releaseWakeLock\<close> the variable \<open>wakeLock\<close> is \<open>null\<close>; a second
  call changes nothing; and a call when no lock is held (never acquired, or already
  released) leaves the whole state as it was: the platform's \<open>release\<close> is not called,
  nothing is logged, nothing is thrown.
\<close>

theorem releaseWakeLock_idempotent:
  "wakeLock (releaseWakeLock w) = None \<and>
   releaseWakeLock (releaseWakeLock w) = releaseWakeLock w \<and>
   (wakeLock w = None \<longrightarrow> releaseWakeLock w = w)"
  by (simp add: releaseWakeLock_def split: option.splits)

theorem releaseWakeLock_idempotent_witness:
  "wakeLock AppState_init = None \<and> releaseWakeLock AppState_init = AppState_init \<and>
   wakeLock (releaseWakeLock (AppState_init\<lparr>wakeLock := Some 7, wakeLocks := [7]\<rparr>)) = None"
proof -
  have h: "wakeLock AppState_init = None" by (simp add: AppState_init_def)
  from releaseWakeLock_idempotent [of AppState_init]
    releaseWakeLock_idempotent [of "AppState_init\<lparr>wakeLock := Some 7, wakeLocks := [7]\<rparr>"] h
  show ?thesis by simp
qed

subsection \<open>What the parts of the engine leave alone\<close>

lemmas model_defs = AppState_init_def
  TrackingService_startTracking_def settle_def emit_def suspend_def setDestination_settled_def
  setDestination_failed_def
  Let_def LocationService_startTracking_def startCapacitorTracking_def
  startCapacitorTracking_foreground_def startCapacitorTracking_poll_def
  watchPosition_settled_def addWatcher_settled_def
  requestWakeLock_def wakeLock_settled_def visibility_restart_def onVisible_def
  onAppStateChange_def browserWatchCallback_def applyPosition_def backgroundCallback_def
  tripCallback_def tripCallback_resume_def gpsSend_log_def
  handleArrival_def handleArrival_failed_def stopTracking_def stopTracking_background_def
  stopTracking_finish_def clearWatch_settled_def removeWatcher_settled_def
  releaseWakeLock_def sendMessage_settled_def cancelTrip_def resetApp_def pollTick_def

lemma stopTracking_frame:
  "arrived (stopTracking e w) = arrived w \<and> tracking (stopTracking e w) = tracking w \<and>
   destination (stopTracking e w) = destination w \<and>
   selectedContacts (stopTracking e w) = selectedContacts w \<and>
   currentLocation (stopTracking e w) = currentLocation w \<and>
   updateCount (stopTracking e w) = updateCount w \<and>
   geofenceRadius (stopTracking e w) = geofenceRadius w \<and>
   wakeLock (stopTracking e w) = wakeLock w \<and>
   wakeLocks (stopTracking e w) = wakeLocks w"
  by (simp add: stopTracking_def stopTracking_background_def stopTracking_finish_def
      emit_def suspend_def Let_def split: option.splits)

lemma stopTracking_effects:
  "effects (stopTracking e w) = effects w @ [Console ''Stopping all tracking...'']"
  by (simp add: stopTracking_def stopTracking_background_def stopTracking_finish_def
      emit_def suspend_def Let_def split: option.splits)

lemma stopTracking_pending:
  "AwaitSendMessage \<in> set (pending (stopTracking e w)) \<longleftrightarrow> AwaitSendMessage \<in> set (pending w)"
  by (simp add: stopTracking_def stopTracking_background_def stopTracking_finish_def
      emit_def suspend_def Let_def split: option.splits)

lemma releaseWakeLock_frame:
  "arrived (releaseWakeLock w) = arrived w \<and> tracking (releaseWakeLock w) = tracking w \<and>
   destination (releaseWakeLock w) = destination w \<and>
   selectedContacts (releaseWakeLock w) = selectedContacts w \<and>
   currentLocation (releaseWakeLock w) = currentLocation w \<and>
   updateCount (releaseWakeLock w) = updateCount w \<and>
   geofenceRadius (releaseWakeLock w) = geofenceRadius w \<and>
   effects (releaseWakeLock w) = effects w \<and>
   pending (releaseWakeLock w) = pending w"
  by (simp add: releaseWakeLock_def split: option.splits)

lemma handleArrival_fresh:
  assumes "\<not> arrived w" and "destination w = Some d"
  shows "arrived (handleArrival e w) \<and> \<not> tracking (handleArrival e w) \<and>
     effects (handleArrival e w) = effects w @ [Console ''Stopping all tracking...'',
        HideTrackingBanner, PostSendMessage (selectedContacts w)] \<and>
     AwaitSendMessage \<in> set (pending (handleArrival e w))"
  using assms
  by (simp add: handleArrival_def Let_def emit_def suspend_def stopTracking_frame
      stopTracking_effects releaseWakeLock_frame)

subsection \<open>Arrival happens at most once\<close>

lemmas obs_defs = unchanged_def arrivalSends_def stopCalls_def completions_def arrivalsAwaiting_def
  emit_def suspend_def

lemma unchanged_refl: "unchanged w w"
  by (simp add: unchanged_def)

lemma unchanged_trans: "unchanged a b \<Longrightarrow> unchanged b c \<Longrightarrow> unchanged a c"
  by (simp add: unchanged_def)

lemma u_releaseWakeLock: "unchanged w (releaseWakeLock w)"
  by (simp add: obs_defs releaseWakeLock_def split: option.splits)

lemma u_wakeLock_settled: "unchanged w (wakeLock_settled r w)"
  by (simp add: obs_defs wakeLock_settled_def Let_def split: outcome.splits)

lemma u_stopTracking_finish: "unchanged w (stopTracking_finish e w)"
  by (simp add: obs_defs stopTracking_finish_def Let_def split: option.splits)

lemma u_stopTracking_background: "unchanged w (stopTracking_background e w)"
  by (simp add: obs_defs stopTracking_background_def stopTracking_finish_def Let_def split: option.splits)

lemma u_removeWatcher_settled: "unchanged w (removeWatcher_settled e h r w)"
  by (simp add: obs_defs removeWatcher_settled_def stopTracking_finish_def Let_def split: option.splits outcome.splits)

lemma u_clearWatch_settled: "unchanged w (clearWatch_settled e h r w)"
  by (simp add: obs_defs clearWatch_settled_def stopTracking_background_def stopTracking_finish_def Let_def split: option.splits outcome.splits)

lemma u_startCapacitorTracking_poll: "unchanged w (startCapacitorTracking_poll cb w)"
  by (simp add: obs_defs startCapacitorTracking_poll_def Let_def split: option.splits outcome.splits)

lemma u_watchPosition_settled: "unchanged w (watchPosition_settled cb r w)"
  by (simp add: obs_defs watchPosition_settled_def startCapacitorTracking_poll_def Let_def split: option.splits outcome.splits)

lemma u_addWatcher_settled: "unchanged w (addWatcher_settled cb r w)"
  by (simp add: obs_defs addWatcher_settled_def startCapacitorTracking_poll_def
      startCapacitorTracking_foreground_def Let_def split: option.splits outcome.splits)

lemma u_startCapacitorTracking: "unchanged w (startCapacitorTracking e cb w)"
  by (simp add: obs_defs startCapacitorTracking_def startCapacitorTracking_foreground_def)

lemma u_LocationService_startTracking: "unchanged w (LocationService_startTracking e cb w)"
  by (simp add: obs_defs LocationService_startTracking_def startCapacitorTracking_def
      startCapacitorTracking_foreground_def Let_def)

lemma u_tripCallback: "unchanged w (tripCallback l w)"
  by (simp add: obs_defs tripCallback_def Let_def split: option.splits)

lemma u_fix:
  "unchanged w (tripCallback l (w\<lparr>currentLocation := Some l, updateCount := Suc (updateCount w)\<rparr>))"
  by (simp add: obs_defs tripCallback_def Let_def split: option.splits)

lemma u_visibility_restart: "unchanged w (visibility_restart e w)"
  by (simp add: visibility_restart_def unchanged_refl u_LocationService_startTracking split: option.splits)

lemma u_requestWakeLock: "unchanged w (requestWakeLock e b w)"
  using u_visibility_restart [of w e]
  by (simp add: requestWakeLock_def unchanged_refl) (simp add: obs_defs)

lemma u_onVisible: "unchanged w (onVisible e w)"
  by (simp add: onVisible_def unchanged_refl u_requestWakeLock)

lemma u_onAppStateChange: "unchanged w (onAppStateChange e b w)"
proof -
  let ?w1 = "emit (Console ''App state changed'') w"
  have a: "unchanged w ?w1"
    by (simp add: obs_defs)
  have "unchanged ?w1 (LocationService_startTracking e cb ?w1)" for cb
    by (rule u_LocationService_startTracking)
  with a have "unchanged w (LocationService_startTracking e cb ?w1)" for cb
    by (rule unchanged_trans)
  with a show ?thesis
    by (simp add: onAppStateChange_def Let_def split: option.splits)
qed

lemma u_backgroundCallback: "unchanged w (backgroundCallback p w)"
proof (cases p)
  case None
  then show ?thesis by (simp add: backgroundCallback_def unchanged_refl)
next
  case (Some l)
  let ?w1 = "emit (Console ''Background location update'') w"
  have a: "unchanged w ?w1"
    by (simp add: obs_defs)
  have "unchanged ?w1
     (tripCallback l (?w1\<lparr>currentLocation := Some l, updateCount := Suc (updateCount ?w1)\<rparr>))"
    by (rule u_fix)
  with a have "unchanged w
     (tripCallback l (?w1\<lparr>currentLocation := Some l, updateCount := Suc (updateCount ?w1)\<rparr>))"
    by (rule unchanged_trans)
  with Some show ?thesis
    by (simp add: backgroundCallback_def Let_def)
qed

lemma u_TrackingService_startTracking: "unchanged w (TrackingService_startTracking w)"
  by (simp add: obs_defs TrackingService_startTracking_def)

lemma u_setDestination_settled: "unchanged w (setDestination_settled e r w)"
proof (cases r)
  case HttpOk
  let ?w2 = "(emit (ShowStep ''tracking'') (w\<lparr>tracking := True\<rparr>))\<lparr>updateCount := 0\<rparr>"
  let ?w3 = "LocationService_startTracking e TripCallback ?w2"
  let ?w4 = "requestWakeLock e False ?w3"
  have a: "unchanged w ?w2" by (simp add: obs_defs)
  have b: "unchanged ?w2 ?w3" by (rule u_LocationService_startTracking)
  have c: "unchanged ?w3 ?w4" by (rule u_requestWakeLock)
  have d: "unchanged ?w4 (emit ShowTrackingBanner ?w4)" by (simp add: obs_defs)
  from a b c d have "unchanged w (emit ShowTrackingBanner ?w4)"
    by (blast intro: unchanged_trans)
  with HttpOk show ?thesis by (simp add: setDestination_settled_def Let_def)
next
  case HttpNotOk
  then show ?thesis by (simp add: obs_defs setDestination_settled_def setDestination_failed_def)
next
  case NetworkError
  then show ?thesis by (simp add: obs_defs setDestination_settled_def setDestination_failed_def)
qed

lemma stopTracking_obs:
  "arrived (stopTracking e w) = arrived w \<and> arrivalSends (stopTracking e w) = arrivalSends w \<and>
   stopCalls (stopTracking e w) = stopCalls w + 1 \<and>
   completions (stopTracking e w) = completions w \<and>
   arrivalsAwaiting (stopTracking e w) = arrivalsAwaiting w \<and>
   destination (stopTracking e w) = destination w"
  by (simp add: arrivalSends_def stopCalls_def completions_def arrivalsAwaiting_def emit_def suspend_def
      stopTracking_def stopTracking_background_def stopTracking_finish_def Let_def split: option.splits)

lemma handleArrival_obs: "unchanged w (handleArrival e w) \<or> arrives w (handleArrival e w)"
proof (cases "arrived w")
  case True
  then show ?thesis by (simp add: handleArrival_def unchanged_refl)
next
  case False
  let ?w1 = "w\<lparr>arrived := True, tracking := False\<rparr>"
  let ?w2 = "stopTracking e ?w1"
  let ?w3 = "releaseWakeLock ?w2"
  let ?w4 = "emit HideTrackingBanner ?w3"
  have s: "arrived ?w2 \<and> arrivalSends ?w2 = arrivalSends w \<and> stopCalls ?w2 = stopCalls w + 1 \<and>
     completions ?w2 + arrivalsAwaiting ?w2 = completions w + arrivalsAwaiting w \<and>
     completions w \<le> completions ?w2"
    using stopTracking_obs [of e ?w1]
    by (simp add: arrivalSends_def stopCalls_def completions_def arrivalsAwaiting_def)
  have r: "unchanged ?w2 ?w3" by (rule u_releaseWakeLock)
  have h: "unchanged ?w3 ?w4" by (simp add: obs_defs)
  from s r h have w4: "arrived ?w4 \<and> arrivalSends ?w4 = arrivalSends w \<and> stopCalls ?w4 = stopCalls w + 1 \<and>
     completions ?w4 + arrivalsAwaiting ?w4 = completions w + arrivalsAwaiting w \<and>
     completions w \<le> completions ?w4"
    by (simp add: unchanged_def)
  have f: "arrives w (handleArrival_failed ?w4)"
    using w4 False
    by (simp add: arrives_def handleArrival_failed_def arrivalSends_def stopCalls_def
        completions_def arrivalsAwaiting_def emit_def)
  have g: "arrives w (suspend AwaitSendMessage (emit (PostSendMessage (selectedContacts ?w4)) ?w4))"
    using w4 False
    by (simp add: arrives_def arrivalSends_def stopCalls_def
        completions_def arrivalsAwaiting_def emit_def suspend_def)
  from f g False show ?thesis
    by (simp add: handleArrival_def Let_def split: option.splits)
qed

lemma advance_unchanged: "unchanged w w' \<Longrightarrow> advance w w'"
  by (simp add: advance_def)

lemma advance_after_unchanged: "unchanged w w1 \<Longrightarrow> advance w1 w2 \<Longrightarrow> advance w w2"
  by (auto simp: advance_def unchanged_def arrives_def)

lemma tripCallback_resume_obs: "advance w (tripCallback_resume e l w)"
proof (cases "destination w")
  case None
  then show ?thesis by (simp add: tripCallback_resume_def advance_def obs_defs)
next
  case (Some d)
  let ?dist = "calculateDistance (arith e) (lat l) (lng l) (place_lat d) (place_lng d)"
  let ?w1 = "emit (ShowDistance ?dist) (w\<lparr>distance := Some ?dist\<rparr>)"
  have a: "unchanged w ?w1" by (simp add: obs_defs)
  have b: "advance ?w1 (handleArrival e ?w1)"
    using handleArrival_obs [of ?w1 e] by (simp add: advance_def)
  have c: "advance w (handleArrival e ?w1)"
    using a b by (rule advance_after_unchanged)
  have d: "advance w ?w1" using a by (rule advance_unchanged)
  from c d Some show ?thesis
    by (simp add: tripCallback_resume_def Let_def)
qed

lemma settle_obs:
  assumes "c \<noteq> AwaitSendMessage" and "\<And>v. advance v (f v)"
  shows "advance w (settle c f w)"
proof (cases "c \<in> set (pending w)")
  case False
  then show ?thesis by (simp add: settle_def advance_def unchanged_refl)
next
  case True
  let ?v = "w\<lparr>pending := remove1 c (pending w)\<rparr>"
  have "count_list (remove1 c (pending w)) AwaitSendMessage = count_list (pending w) AwaitSendMessage"
    using assms(1) by (induction "pending w" arbitrary: w) auto
  then have "unchanged w ?v" by (simp add: obs_defs)
  then have "advance w (f ?v)" using assms(2) by (rule advance_after_unchanged)
  with True show ?thesis by (simp add: settle_def)
qed

lemma sendMessage_settled_obs:
  "arrived (sendMessage_settled r v) = arrived v \<and>
   arrivalSends (sendMessage_settled r v) = arrivalSends v \<and>
   stopCalls (sendMessage_settled r v) = stopCalls v \<and>
   completions (sendMessage_settled r v) = completions v + 1 \<and>
   arrivalsAwaiting (sendMessage_settled r v) = arrivalsAwaiting v"
  by (cases r) (simp_all add: sendMessage_settled_def handleArrival_failed_def arrivalSends_def
      stopCalls_def completions_def arrivalsAwaiting_def emit_def split: option.splits)

lemma settle_sendMessage_obs: "unchanged w (settle AwaitSendMessage (sendMessage_settled r) w)"
proof (cases "AwaitSendMessage \<in> set (pending w)")
  case False
  then show ?thesis by (simp add: settle_def unchanged_refl)
next
  case True
  let ?v = "w\<lparr>pending := remove1 AwaitSendMessage (pending w)\<rparr>"
  have "count_list (pending w) AwaitSendMessage \<noteq> 0"
    using True by (simp add: count_list_0_iff)
  then have p: "Suc (arrivalsAwaiting ?v) = arrivalsAwaiting w"
    by (simp add: arrivalsAwaiting_def)
  have q: "arrived ?v = arrived w \<and> arrivalSends ?v = arrivalSends w \<and>
     stopCalls ?v = stopCalls w \<and> completions ?v = completions w"
    by (simp add: arrivalSends_def stopCalls_def completions_def)
  from p q sendMessage_settled_obs [of r ?v] True show ?thesis
    by (simp add: settle_def unchanged_def)
qed

lemma u_browserWatchError: "unchanged w (browserWatchError w)"
  by (simp add: obs_defs browserWatchError_def)

lemma u_capacitorWatchError: "unchanged w (capacitorWatchError w)"
  by (simp add: obs_defs capacitorWatchError_def Let_def)

lemma u_backgroundError: "unchanged w (backgroundError b w)"
  by (simp add: obs_defs backgroundError_def Let_def)

lemma u_pollTick: "unchanged w (pollTick e w)"
  by (simp add: obs_defs pollTick_def)

lemma u_pollFailed: "unchanged w (emit (Console ''Periodic location fetch failed'') w)"
  by (simp add: obs_defs)

lemma handleArrival_arrived: "arrived (handleArrival e w)"
proof (cases "arrived w")
  case True
  then show ?thesis by (simp add: handleArrival_def)
next
  case False
  have "arrived (releaseWakeLock (stopTracking e (w\<lparr>arrived := True, tracking := False\<rparr>)))"
    using stopTracking_obs [of e "w\<lparr>arrived := True, tracking := False\<rparr>"]
      u_releaseWakeLock [of "stopTracking e (w\<lparr>arrived := True, tracking := False\<rparr>)"]
    by (simp add: unchanged_def)
  then show ?thesis
    by (simp add: handleArrival_def Let_def handleArrival_failed_def emit_def suspend_def
        split: option.splits)
qed

lemma step_obs: "in_trip ev \<Longrightarrow> advance w (step e ev w)"
proof (cases ev)
  case (GpsSendSettled l r)
  have "\<And>v. advance v (tripCallback_resume e l (gpsSend_log r v))"
  proof -
    fix v
    have "unchanged v (gpsSend_log r v)"
      by (cases r) (simp_all add: gpsSend_log_def obs_defs)
    then show "advance v (tripCallback_resume e l (gpsSend_log r v))"
      using tripCallback_resume_obs by (rule advance_after_unchanged)
  qed
  with GpsSendSettled show ?thesis by (simp add: settle_obs)
next
  case (SendMessageSettled r)
  then show ?thesis by (simp add: settle_sendMessage_obs advance_unchanged)
next
  case (WakeLockSettled b r)
  have "\<And>v. advance v (if b then visibility_restart e (wakeLock_settled r v) else wakeLock_settled r v)"
    using unchanged_trans [OF u_wakeLock_settled u_visibility_restart] u_wakeLock_settled
    by (simp add: advance_unchanged)
  with WakeLockSettled show ?thesis by (simp add: settle_obs)
qed (simp_all add: advance_unchanged unchanged_refl settle_obs u_fix u_tripCallback
    browserWatchCallback_def applyPosition_def u_backgroundCallback
    u_setDestination_settled u_clearWatch_settled u_removeWatcher_settled
    u_addWatcher_settled u_watchPosition_settled u_onVisible u_onAppStateChange
    u_TrackingService_startTracking u_browserWatchError u_capacitorWatchError
    u_backgroundError u_pollTick u_pollFailed
    split: option.splits)

lemma run_obs:
  "\<forall>ev \<in> set evs. in_trip ev \<Longrightarrow>
   (arrived w \<longrightarrow> unchanged w (run e evs w)) \<and>
   (unchanged w (run e evs w) \<or> arrives w (run e evs w))"
proof (induction evs arbitrary: w)
  case Nil
  then show ?case by (simp add: unchanged_refl)
next
  case (Cons ev evs)
  let ?w1 = "step e ev w"
  have s: "advance w ?w1" using Cons.prems by (simp add: step_obs)
  have ih: "(arrived ?w1 \<longrightarrow> unchanged ?w1 (run e evs ?w1)) \<and>
     (unchanged ?w1 (run e evs ?w1) \<or> arrives ?w1 (run e evs ?w1))"
    using Cons.prems by (intro Cons.IH) simp
  from s ih show ?case
    by (auto simp: advance_def unchanged_def arrives_def)
qed

text \<open>The concrete trip, evaluated.\<close>

lemmas trip_defs = tripUntilArrival_def tripAfterArrival_def readyToStart_def AppState_init_def
  browserEnv_def origin_def atOrigin_def
  TrackingService_startTracking_def settle_def emit_def suspend_def setDestination_settled_def
  Let_def LocationService_startTracking_def requestWakeLock_def browserWatchCallback_def
  tripCallback_def tripCallback_resume_def gpsSend_log_def sample_distance_origin
  handleArrival_def stopTracking_def stopTracking_background_def stopTracking_finish_def
  releaseWakeLock_def sendMessage_settled_def

lemma trip_arrived: "arrived (run browserEnv tripUntilArrival readyToStart)"
  by (simp add: trip_defs)

lemma trip_sends_at_arrival: "arrivalSends (run browserEnv tripUntilArrival readyToStart) = 1"
  by (simp add: trip_defs arrivalSends_def)

lemma trip_sends: "arrivalSends (run browserEnv (tripUntilArrival @ tripAfterArrival) readyToStart) = 1"
  by (simp add: trip_defs arrivalSends_def)

lemma trip_stops: "stopCalls (run browserEnv (tripUntilArrival @ tripAfterArrival) readyToStart) = 1"
  by (simp add: trip_defs stopCalls_def)

lemma trip_completions: "completions (run browserEnv (tripUntilArrival @ tripAfterArrival) readyToStart) = 1"
  by (simp add: trip_defs completions_def)

text \<open>
  C1. During a trip (any events except cancelling and starting a new journey, in any
  order and interleaving): \<open>handleArrival\<close> sets \<open>arrived\<close> in its synchronous part,
  before the arrival message is awaited; from a state where \<open>arrived\<close> is set, no event
  calls \<open>stopTracking\<close> again or sends another arrival message, and the flag stays
  set; so over the whole trip \<open>stopTracking\<close> is called for arrival at most once, at most
  one arrival message is sent, and the completion step is shown at most once.
\<close>

theorem arrival_at_most_once:
  assumes "\<forall>ev \<in> set evs. in_trip ev"
  shows "arrived (handleArrival e w) \<and>
         (arrived w \<longrightarrow> arrived (run e evs w) \<and> arrivalSends (run e evs w) = arrivalSends w \<and>
            stopCalls (run e evs w) = stopCalls w) \<and>
         arrivalSends (run e evs w) \<le> arrivalSends w + 1 \<and>
         stopCalls (run e evs w) \<le> stopCalls w + 1 \<and>
         (AwaitSendMessage \<notin> set (pending w) \<longrightarrow>
            completions (run e evs w) \<le> completions w + 1)"
proof -
  have z: "AwaitSendMessage \<notin> set (pending w) \<Longrightarrow> arrivalsAwaiting w = 0"
    by (simp add: arrivalsAwaiting_def count_list_0_iff)
  from run_obs [OF assms, of w e] z handleArrival_arrived [of e w] show ?thesis
    by (auto simp: unchanged_def arrives_def)
qed

theorem arrival_at_most_once_witness:
  "list_all in_trip (tripUntilArrival @ tripAfterArrival) \<and>
   AwaitSendMessage \<notin> set (pending readyToStart) \<and>
   arrivalSends (run browserEnv (tripUntilArrival @ tripAfterArrival) readyToStart) = 1 \<and>
   stopCalls (run browserEnv (tripUntilArrival @ tripAfterArrival) readyToStart) = 1 \<and>
   completions (run browserEnv (tripUntilArrival @ tripAfterArrival) readyToStart) = 1 \<and>
   completions (run browserEnv (tripUntilArrival @ tripAfterArrival) readyToStart)
     \<le> completions readyToStart + 1 \<and>
   arrived (run browserEnv tripUntilArrival readyToStart) \<and>
   arrivalSends (run browserEnv tripAfterArrival (run browserEnv tripUntilArrival readyToStart))
     = arrivalSends (run browserEnv tripUntilArrival readyToStart)"
proof -
  have h1: "\<forall>ev \<in> set (tripUntilArrival @ tripAfterArrival). in_trip ev"
    by (simp add: tripUntilArrival_def tripAfterArrival_def)
  have h2: "\<forall>ev \<in> set tripAfterArrival. in_trip ev"
    by (simp add: tripAfterArrival_def)
  have h3: "AwaitSendMessage \<notin> set (pending readyToStart)"
    by (simp add: readyToStart_def AppState_init_def)
  from arrival_at_most_once [OF h1, of browserEnv readyToStart]
    arrival_at_most_once [OF h2, of browserEnv "run browserEnv tripUntilArrival readyToStart"]
    h1 h3 trip_arrived trip_sends trip_stops trip_completions
  show ?thesis by (simp add: list_all_iff)
qed

subsection \<open>The geofence boundary\<close>

text \<open>
  C9. With a destination set and \<open>arrived\<close> not yet set, the resumed trip callback runs
  the arrival handler exactly when \<open>dist <= AppState.geofenceRadius\<close> holds of the
  distance it has computed, whatever the engine's arithmetic. So when the computed
  distance equals the radius (500 and 500, or any other number) arrival is triggered:
  \<open>arrived\<close> is set, \<open>tracking\<close> is cleared, \<open>stopTracking\<close> is called and the arrival
  message is posted and awaited. When the computed distance is greater than the radius,
  by however little, nothing of this happens: the comparison is \<open><=\<close>, neither \<open><\<close> nor
  anything wider.
\<close>

theorem arrival_boundary_inclusive:
  assumes "destination w = Some d" and "\<not> arrived w"
  shows "(arrived (tripCallback_resume e l w) \<longleftrightarrow>
            le (calculateDistance (arith e) (lat l) (lng l) (place_lat d) (place_lng d))
               (geofenceRadius w)) \<and>
         (\<forall>r x. geofenceRadius w = Num r \<and>
            calculateDistance (arith e) (lat l) (lng l) (place_lat d) (place_lng d) = Num x \<longrightarrow>
              (arrived (tripCallback_resume e l w) \<longleftrightarrow> x \<le> r)) \<and>
         (\<forall>r. geofenceRadius w = Num r \<and>
            calculateDistance (arith e) (lat l) (lng l) (place_lat d) (place_lng d) = Num r \<longrightarrow>
              arrived (tripCallback_resume e l w) \<and>
              \<not> tracking (tripCallback_resume e l w) \<and>
              arrivalSends (tripCallback_resume e l w) = arrivalSends w + 1 \<and>
              stopCalls (tripCallback_resume e l w) = stopCalls w + 1 \<and>
              AwaitSendMessage \<in> set (pending (tripCallback_resume e l w))) \<and>
         (\<not> le (calculateDistance (arith e) (lat l) (lng l) (place_lat d) (place_lng d))
               (geofenceRadius w) \<longrightarrow>
              tracking (tripCallback_resume e l w) = tracking w \<and>
              arrivalSends (tripCallback_resume e l w) = arrivalSends w \<and>
              stopCalls (tripCallback_resume e l w) = stopCalls w \<and>
              pending (tripCallback_resume e l w) = pending w)"
proof -
  let ?dist = "calculateDistance (arith e) (lat l) (lng l) (place_lat d) (place_lng d)"
  let ?w1 = "emit (ShowDistance ?dist) (w\<lparr>distance := Some ?dist\<rparr>)"
  have a: "\<not> arrived ?w1" "destination ?w1 = Some d"
    using assms by (simp_all add: emit_def)
  have inside: "arrived (tripCallback_resume e l w) \<and>
      \<not> tracking (tripCallback_resume e l w) \<and>
      arrivalSends (tripCallback_resume e l w) = arrivalSends w + 1 \<and>
      stopCalls (tripCallback_resume e l w) = stopCalls w + 1 \<and>
      AwaitSendMessage \<in> set (pending (tripCallback_resume e l w))"
    if "le ?dist (geofenceRadius w)"
  proof -
    have r: "tripCallback_resume e l w = handleArrival e ?w1"
      using assms that by (simp add: tripCallback_resume_def Let_def emit_def)
    from handleArrival_fresh [OF a, of e] show ?thesis
      unfolding r by (simp add: arrivalSends_def stopCalls_def emit_def)
  qed
  have outside: "\<not> arrived (tripCallback_resume e l w) \<and>
      tracking (tripCallback_resume e l w) = tracking w \<and>
      arrivalSends (tripCallback_resume e l w) = arrivalSends w \<and>
      stopCalls (tripCallback_resume e l w) = stopCalls w \<and>
      pending (tripCallback_resume e l w) = pending w"
    if "\<not> le ?dist (geofenceRadius w)"
  proof -
    have r: "tripCallback_resume e l w = ?w1"
      using assms that by (simp add: tripCallback_resume_def Let_def emit_def)
    show ?thesis
      unfolding r using assms by (simp add: arrivalSends_def stopCalls_def emit_def)
  qed
  have iff: "arrived (tripCallback_resume e l w) \<longleftrightarrow> le ?dist (geofenceRadius w)"
    using inside outside by blast
  have num: "geofenceRadius w = Num r \<and> ?dist = Num x \<longrightarrow>
      (arrived (tripCallback_resume e l w) \<longleftrightarrow> x \<le> r)" for r x
    using iff by auto
  have eq: "geofenceRadius w = Num r \<and> ?dist = Num r \<longrightarrow>
      arrived (tripCallback_resume e l w) \<and>
      \<not> tracking (tripCallback_resume e l w) \<and>
      arrivalSends (tripCallback_resume e l w) = arrivalSends w + 1 \<and>
      stopCalls (tripCallback_resume e l w) = stopCalls w + 1 \<and>
      AwaitSendMessage \<in> set (pending (tripCallback_resume e l w))" for r
  proof
    assume h: "geofenceRadius w = Num r \<and> ?dist = Num r"
    then have "le ?dist (geofenceRadius w)" by simp
    then show "arrived (tripCallback_resume e l w) \<and>
      \<not> tracking (tripCallback_resume e l w) \<and>
      arrivalSends (tripCallback_resume e l w) = arrivalSends w + 1 \<and>
      stopCalls (tripCallback_resume e l w) = stopCalls w + 1 \<and>
      AwaitSendMessage \<in> set (pending (tripCallback_resume e l w))"
      by (rule inside)
  qed
  from iff num eq outside show ?thesis by blast
qed

lemma at100_distance:
  "calculateDistance (arith browserEnv) (lat at100) (lng at100) (place_lat origin) (place_lng origin)
     = Num 100"
  by (simp add: browserEnv_def at100_def origin_def sample_distance_at100)

lemma at100Trip_state:
  "destination (run browserEnv at100Trip readyAt100) = Some origin \<and>
   geofenceRadius (run browserEnv at100Trip readyAt100) = Num 100 \<and>
   \<not> arrived (run browserEnv at100Trip readyAt100) \<and>
   tracking (run browserEnv at100Trip readyAt100) \<and>
   pending (run browserEnv at100Trip readyAt100) = [AwaitGpsSend at100]"
  by (simp add: at100Trip_def readyAt100_def readyToStart_def browserEnv_def model_defs)

theorem arrival_boundary_inclusive_witness:
  "destination (run browserEnv at100Trip readyAt100) = Some origin \<and>
   \<not> arrived (run browserEnv at100Trip readyAt100) \<and>
   tracking (run browserEnv at100Trip readyAt100) \<and>
   geofenceRadius (run browserEnv at100Trip readyAt100) = Num 100 \<and>
   calculateDistance (arith browserEnv) (lat at100) (lng at100) (place_lat origin) (place_lng origin)
     = Num 100 \<and>
   arrived (tripCallback_resume browserEnv at100 (run browserEnv at100Trip readyAt100)) \<and>
   AwaitSendMessage \<in> set (pending (tripCallback_resume browserEnv at100
      (run browserEnv at100Trip readyAt100))) \<and>
   \<not> arrived (tripCallback_resume browserEnv at100
      ((run browserEnv at100Trip readyAt100)\<lparr>geofenceRadius := Num 50\<rparr>))"
proof -
  let ?w = "run browserEnv at100Trip readyAt100"
  have a: "destination ?w = Some origin" "\<not> arrived ?w"
    using at100Trip_state by simp_all
  have b: "destination (?w\<lparr>geofenceRadius := Num 50\<rparr>) = Some origin"
    "\<not> arrived (?w\<lparr>geofenceRadius := Num 50\<rparr>)"
    using at100Trip_state by simp_all
  from arrival_boundary_inclusive [OF a, of browserEnv at100]
    arrival_boundary_inclusive [OF b, of browserEnv at100]
    at100Trip_state at100_distance
  show ?thesis by simp
qed

subsection \<open>A failed arrival notification\<close>

lemma handleArrival_failed_frame:
  "handleArrival_failed w = w\<lparr>effects := effects w @ [Console ''Error sending message'',
      ShowError ''trackingError'' ''Arrived but failed to send notifications: '',
      ShowStep ''complete'']\<rparr>"
  by (simp add: handleArrival_failed_def emit_def)

lemma handleArrival_state:
  "arrived (handleArrival e w) \<and> (\<not> arrived w \<longrightarrow> \<not> tracking (handleArrival e w))"
  by (simp add: handleArrival_def Let_def emit_def suspend_def stopTracking_frame
      releaseWakeLock_frame handleArrival_failed_frame split: option.splits)

text \<open>
  C6. When the arrival message cannot be sent (the response is not ok, or the network
  fails), \<open>handleArrival\<close> only logs the error, shows the warning "Arrived but failed to
  send notifications" and shows the completion step. Settling the send after
  \<open>handleArrival\<close> leaves every field of the state as \<open>handleArrival\<close> left it:
  \<open>arrived\<close> stays set, \<open>tracking\<close> stays cleared, nothing is started again.
\<close>

theorem failed_arrival_send_keeps_arrived:
  assumes "r \<noteq> HttpOk"
  shows "sendMessage_settled r w = w\<lparr>effects := effects w @ [Console ''Error sending message'',
            ShowError ''trackingError'' ''Arrived but failed to send notifications: '',
            ShowStep ''complete'']\<rparr> \<and>
         arrived (step e (SendMessageSettled r) (handleArrival e w)) \<and>
         (\<not> arrived w \<longrightarrow>
            \<not> tracking (step e (SendMessageSettled r) (handleArrival e w)) \<and>
            ShowStep ''complete''
              \<in> set (effects (step e (SendMessageSettled r) (handleArrival e w)))) \<and>
         (step e (SendMessageSettled r) (handleArrival e w))
            \<lparr>effects := effects (handleArrival e w), pending := pending (handleArrival e w)\<rparr>
           = handleArrival e w"
proof -
  have a: "sendMessage_settled r v = v\<lparr>effects := effects v @ [Console ''Error sending message'',
            ShowError ''trackingError'' ''Arrived but failed to send notifications: '',
            ShowStep ''complete'']\<rparr>" for v
    using assms by (cases r) (simp_all add: sendMessage_settled_def handleArrival_failed_frame)
  have b: "AwaitSendMessage \<in> set (pending (handleArrival e w)) \<or>
           ShowStep ''complete'' \<in> set (effects (handleArrival e w))" if "\<not> arrived w"
  proof (cases "destination w")
    case None
    with that show ?thesis
      by (simp add: handleArrival_def Let_def emit_def stopTracking_frame releaseWakeLock_frame
          handleArrival_failed_frame)
  next
    case (Some d)
    with that handleArrival_fresh [of w d e] show ?thesis by simp
  qed
  have c: "\<not> arrived w \<longrightarrow> ShowStep ''complete''
      \<in> set (effects (settle AwaitSendMessage (sendMessage_settled r) (handleArrival e w)))"
    using b by (auto simp: settle_def a)
  show ?thesis
    using handleArrival_state [of e w] c
    by (simp add: a settle_def)
qed

lemma at500Trip_state:
  "destination (run browserEnv at500Trip readyToStart) = Some origin \<and>
   geofenceRadius (run browserEnv at500Trip readyToStart) = Num 500 \<and>
   \<not> arrived (run browserEnv at500Trip readyToStart) \<and>
   tracking (run browserEnv at500Trip readyToStart) \<and>
   pending (run browserEnv at500Trip readyToStart) = [AwaitGpsSend at500]"
  by (simp add: at500Trip_def readyToStart_def browserEnv_def model_defs)

theorem failed_arrival_send_keeps_arrived_witness:
  "NetworkError \<noteq> HttpOk \<and>
   \<not> arrived (run browserEnv at500Trip readyToStart) \<and>
   tracking (run browserEnv at500Trip readyToStart) \<and>
   arrived (step browserEnv (SendMessageSettled NetworkError)
      (handleArrival browserEnv (run browserEnv at500Trip readyToStart))) \<and>
   \<not> tracking (step browserEnv (SendMessageSettled NetworkError)
      (handleArrival browserEnv (run browserEnv at500Trip readyToStart))) \<and>
   ShowStep ''complete'' \<in> set (effects (step browserEnv (SendMessageSettled NetworkError)
      (handleArrival browserEnv (run browserEnv at500Trip readyToStart))))"
proof -
  have h: "NetworkError \<noteq> HttpOk" by simp
  from failed_arrival_send_keeps_arrived [OF h, of "run browserEnv at500Trip readyToStart" browserEnv]
    at500Trip_state
  show ?thesis by simp
qed

subsection \<open>Starting a trip\<close>

lemma LocationService_startTracking_frame:
  "tracking (LocationService_startTracking e cb w) = tracking w \<and>
   arrived (LocationService_startTracking e cb w) = arrived w \<and>
   updateCount (LocationService_startTracking e cb w) = updateCount w \<and>
   currentLocation (LocationService_startTracking e cb w) = currentLocation w \<and>
   destination (LocationService_startTracking e cb w) = destination w"
  by (simp add: LocationService_startTracking_def startCapacitorTracking_def
      startCapacitorTracking_foreground_def emit_def suspend_def Let_def)

lemma requestWakeLock_start_frame:
  "tracking (requestWakeLock e False w) = tracking w \<and>
   arrived (requestWakeLock e False w) = arrived w \<and>
   updateCount (requestWakeLock e False w) = updateCount w \<and>
   currentLocation (requestWakeLock e False w) = currentLocation w \<and>
   destination (requestWakeLock e False w) = destination w"
  by (simp add: requestWakeLock_def suspend_def)

lemma setDestination_accepted:
  "tracking (setDestination_settled e HttpOk w) \<and>
   updateCount (setDestination_settled e HttpOk w) = 0 \<and>
   currentLocation (setDestination_settled e HttpOk w) = currentLocation w"
  by (simp add: setDestination_settled_def Let_def emit_def requestWakeLock_start_frame
      LocationService_startTracking_frame)

lemma setDestination_refused:
  "r \<noteq> HttpOk \<Longrightarrow> \<not> tracking (setDestination_settled e r w) \<and>
     updateCount (setDestination_settled e r w) = updateCount w \<and>
     pending (setDestination_settled e r w) = pending w"
  by (cases r) (simp_all add: setDestination_settled_def setDestination_failed_def emit_def)

text \<open>
  C5, amended. \<open>TrackingService.startTracking\<close> shows a validation error and does nothing
  else (\<open>tracking\<close> unchanged, no request sent) when there is no destination or no
  selected contact; otherwise it posts the destination. When the server accepts,
  \<open>tracking\<close> is set and \<open>updateCount\<close> is 0, and \<open>currentLocation\<close> is left as it was;
  when the server refuses or the network fails, \<open>tracking\<close> is cleared.
\<close>

theorem start_validation:
  "(destination w = None \<or> selectedContacts w = [] \<longrightarrow>
      (\<exists>msg. TrackingService_startTracking w = emit (ShowError ''messageError'' msg) w) \<and>
      tracking (TrackingService_startTracking w) = tracking w \<and>
      pending (TrackingService_startTracking w) = pending w) \<and>
   (destination w \<noteq> None \<and> selectedContacts w \<noteq> [] \<longrightarrow>
      pending (TrackingService_startTracking w) = pending w @ [AwaitSetDestination] \<and>
      tracking (TrackingService_startTracking w) = tracking w) \<and>
   tracking (setDestination_settled e HttpOk w) \<and>
   updateCount (setDestination_settled e HttpOk w) = 0 \<and>
   currentLocation (setDestination_settled e HttpOk w) = currentLocation w \<and>
   (r \<noteq> HttpOk \<longrightarrow> \<not> tracking (setDestination_settled e r w))"
proof -
  have a: "destination w = None \<Longrightarrow>
      TrackingService_startTracking w
        = emit (ShowError ''messageError'' ''Please select a destination first'') w"
    by (simp add: TrackingService_startTracking_def)
  have b: "destination w \<noteq> None \<Longrightarrow> selectedContacts w = [] \<Longrightarrow>
      TrackingService_startTracking w
        = emit (ShowError ''messageError'' ''Please select at least one contact'') w"
    by (auto simp: TrackingService_startTracking_def)
  have c: "destination w \<noteq> None \<Longrightarrow> selectedContacts w \<noteq> [] \<Longrightarrow>
      TrackingService_startTracking w
        = suspend AwaitSetDestination (emit PostSetDestination (emit (HideError ''messageError'') w))"
    by (auto simp: TrackingService_startTracking_def)
  have d: "tracking (emit x w) = tracking w \<and> pending (emit x w) = pending w" for x
    by (simp add: emit_def)
  have v: "destination w = None \<or> selectedContacts w = [] \<Longrightarrow>
      (\<exists>msg. TrackingService_startTracking w = emit (ShowError ''messageError'' msg) w) \<and>
      tracking (TrackingService_startTracking w) = tracking w \<and>
      pending (TrackingService_startTracking w) = pending w"
    using a b d by (cases "destination w = None") auto
  have s: "destination w \<noteq> None \<and> selectedContacts w \<noteq> [] \<Longrightarrow>
      pending (TrackingService_startTracking w) = pending w @ [AwaitSetDestination] \<and>
      tracking (TrackingService_startTracking w) = tracking w"
    using c by (simp add: emit_def suspend_def)
  from v s setDestination_accepted [of e w] setDestination_refused [of r e w]
  show ?thesis by blast
qed

lemma located_facts:
  "destination located \<noteq> None \<and> selectedContacts located \<noteq> [] \<and>
   currentLocation located = Some atOrigin \<and> pending located = [] \<and> \<not> tracking located"
  by (simp add: located_def readyToStart_def AppState_init_def)

theorem start_validation_witness:
  "destination AppState_init = None \<and>
   \<not> tracking (TrackingService_startTracking AppState_init) \<and>
   pending (TrackingService_startTracking AppState_init) = [] \<and>
   destination located \<noteq> None \<and> selectedContacts located \<noteq> [] \<and>
   pending (TrackingService_startTracking located) = [AwaitSetDestination] \<and>
   tracking (setDestination_settled browserEnv HttpOk located) \<and>
   updateCount (setDestination_settled browserEnv HttpOk located) = 0 \<and>
   currentLocation (setDestination_settled browserEnv HttpOk located) = Some atOrigin \<and>
   HttpNotOk \<noteq> HttpOk \<and>
   \<not> tracking (setDestination_settled browserEnv HttpNotOk located)"
proof -
  have a: "destination AppState_init = None \<and> \<not> tracking AppState_init \<and> pending AppState_init = []"
    by (simp add: AppState_init_def)
  from start_validation [of AppState_init browserEnv HttpNotOk]
    start_validation [of located browserEnv HttpNotOk] a located_facts
  show ?thesis by simp
qed

text \<open>
  C5 as stated fails: a trip started with a last known position keeps it, where the
  claim has it reset to \<open>null\<close>.
\<close>

theorem start_keeps_currentLocation_counterexample:
  "destination located \<noteq> None \<and> selectedContacts located \<noteq> [] \<and>
   tracking (run browserEnv startAccepted located) \<and>
   updateCount (run browserEnv startAccepted located) = 0 \<and>
   currentLocation (run browserEnv startAccepted located) = Some atOrigin \<and>
   currentLocation (run browserEnv startAccepted located) \<noteq> None"
  by (simp add: startAccepted_def located_def readyToStart_def browserEnv_def model_defs)

subsection \<open>Fixes that arrive late\<close>

lemma tripCallback_frame:
  "currentLocation (tripCallback l w) = currentLocation w \<and>
   updateCount (tripCallback l w) = updateCount w \<and>
   arrived (tripCallback l w) = arrived w \<and> tracking (tripCallback l w) = tracking w \<and>
   arrivalSends (tripCallback l w) = arrivalSends w \<and>
   stopCalls (tripCallback l w) = stopCalls w \<and>
   ShowFix l (updateCount w) \<in> set (effects (tripCallback l w))"
  by (simp add: tripCallback_def Let_def emit_def suspend_def arrivalSends_def stopCalls_def
      split: option.splits)

lemma fix_recorded:
  "currentLocation (tripCallback l (w\<lparr>currentLocation := Some l, updateCount := Suc (updateCount w)\<rparr>)) = Some l \<and>
   updateCount (tripCallback l (w\<lparr>currentLocation := Some l, updateCount := Suc (updateCount w)\<rparr>)) = updateCount w + 1 \<and>
   ShowFix l (updateCount w + 1) \<in> set (effects (tripCallback l (w\<lparr>currentLocation := Some l, updateCount := Suc (updateCount w)\<rparr>))) \<and>
   arrived (tripCallback l (w\<lparr>currentLocation := Some l, updateCount := Suc (updateCount w)\<rparr>)) = arrived w \<and>
   tracking (tripCallback l (w\<lparr>currentLocation := Some l, updateCount := Suc (updateCount w)\<rparr>)) = tracking w \<and>
   arrivalSends (tripCallback l (w\<lparr>currentLocation := Some l, updateCount := Suc (updateCount w)\<rparr>)) = arrivalSends w \<and>
   stopCalls (tripCallback l (w\<lparr>currentLocation := Some l, updateCount := Suc (updateCount w)\<rparr>)) = stopCalls w"
  using tripCallback_frame [of l "w\<lparr>currentLocation := Some l, updateCount := Suc (updateCount w)\<rparr>"]
  by (simp add: arrivalSends_def stopCalls_def)

lemma applyPosition_recorded:
  "currentLocation (applyPosition (Some l) w) = Some l \<and>
   updateCount (applyPosition (Some l) w) = updateCount w + 1 \<and>
   ShowFix l (updateCount w + 1) \<in> set (effects (applyPosition (Some l) w)) \<and>
   arrived (applyPosition (Some l) w) = arrived w \<and>
   tracking (applyPosition (Some l) w) = tracking w \<and>
   arrivalSends (applyPosition (Some l) w) = arrivalSends w \<and>
   stopCalls (applyPosition (Some l) w) = stopCalls w"
  using fix_recorded [of l w] by (simp add: applyPosition_def)

lemma resume_without_arrival:
  assumes "arrived w \<or> destination w = None"
  shows "arrived (tripCallback_resume e l w) = arrived w \<and>
         tracking (tripCallback_resume e l w) = tracking w \<and>
         arrivalSends (tripCallback_resume e l w) = arrivalSends w \<and>
         stopCalls (tripCallback_resume e l w) = stopCalls w \<and>
         pending (tripCallback_resume e l w) = pending w"
  using assms
  by (auto simp: tripCallback_resume_def Let_def emit_def arrivalSends_def stopCalls_def
      split: option.splits)

text \<open>
  C2, amended. While \<open>arrived\<close> is set (after arrival) or no destination is set (after
  a cancel), a fix delivered by any of the three sources is still recorded:
  \<open>currentLocation\<close> becomes the fix, \<open>updateCount\<close> grows by one and the trip callback
  shows it. But neither the delivery nor the resumed callback runs the arrival handler:
  \<open>stopTracking\<close> is not called, no arrival message is sent, and \<open>arrived\<close> and
  \<open>tracking\<close> keep their values.
\<close>

theorem late_fix_recorded_without_arrival:
  assumes "arrived w \<or> destination w = None"
  shows "currentLocation (applyPosition (Some l) w) = Some l \<and>
         updateCount (applyPosition (Some l) w) = updateCount w + 1 \<and>
         ShowFix l (updateCount w + 1) \<in> set (effects (applyPosition (Some l) w)) \<and>
         browserWatchCallback l w = applyPosition (Some l) w \<and>
         backgroundCallback (Some l) w
           = applyPosition (Some l) (emit (Console ''Background location update'') w) \<and>
         currentLocation (backgroundCallback (Some l) w) = Some l \<and>
         updateCount (backgroundCallback (Some l) w) = updateCount w + 1 \<and>
         ShowFix l (updateCount w + 1) \<in> set (effects (backgroundCallback (Some l) w)) \<and>
         arrived (backgroundCallback (Some l) w) = arrived w \<and>
         tracking (backgroundCallback (Some l) w) = tracking w \<and>
         arrivalSends (backgroundCallback (Some l) w) = arrivalSends w \<and>
         stopCalls (backgroundCallback (Some l) w) = stopCalls w \<and>
         arrived (applyPosition (Some l) w) = arrived w \<and>
         tracking (applyPosition (Some l) w) = tracking w \<and>
         arrivalSends (applyPosition (Some l) w) = arrivalSends w \<and>
         stopCalls (applyPosition (Some l) w) = stopCalls w \<and>
         arrived (tripCallback_resume e l w) = arrived w \<and>
         tracking (tripCallback_resume e l w) = tracking w \<and>
         arrivalSends (tripCallback_resume e l w) = arrivalSends w \<and>
         stopCalls (tripCallback_resume e l w) = stopCalls w"
proof -
  let ?v = "emit (Console ''Background location update'') w"
  have b: "browserWatchCallback l w = applyPosition (Some l) w"
    by (simp add: applyPosition_def browserWatchCallback_def)
  have g: "backgroundCallback (Some l) w = applyPosition (Some l) ?v"
    by (simp add: applyPosition_def backgroundCallback_def Let_def)
  have v: "updateCount ?v = updateCount w \<and> arrived ?v = arrived w \<and>
     tracking ?v = tracking w \<and> arrivalSends ?v = arrivalSends w \<and> stopCalls ?v = stopCalls w"
    by (simp add: emit_def arrivalSends_def stopCalls_def)
  have gb: "currentLocation (backgroundCallback (Some l) w) = Some l \<and>
     updateCount (backgroundCallback (Some l) w) = updateCount w + 1 \<and>
     ShowFix l (updateCount w + 1) \<in> set (effects (backgroundCallback (Some l) w)) \<and>
     arrived (backgroundCallback (Some l) w) = arrived w \<and>
     tracking (backgroundCallback (Some l) w) = tracking w \<and>
     arrivalSends (backgroundCallback (Some l) w) = arrivalSends w \<and>
     stopCalls (backgroundCallback (Some l) w) = stopCalls w"
    using applyPosition_recorded [of l ?v] v unfolding g by simp
  from b g gb applyPosition_recorded [of l w] resume_without_arrival [OF assms, of e l]
  show ?thesis by simp
qed

lemma capacitorArrival_state:
  "arrived (run capacitorEnv capacitorArrival readyToStart) \<and>
   \<not> tracking (run capacitorEnv capacitorArrival readyToStart) \<and>
   updateCount (run capacitorEnv capacitorArrival readyToStart) = 1 \<and>
   currentLocation (run capacitorEnv capacitorArrival readyToStart) = Some atOrigin \<and>
   capacitorWatches (run capacitorEnv capacitorArrival readyToStart) = [1] \<and>
   pending (run capacitorEnv capacitorArrival readyToStart) = [AwaitClearWatch 1, AwaitSendMessage]"
  by (simp add: capacitorArrival_def readyToStart_def capacitorEnv_def origin_def atOrigin_def
      sample_distance_origin model_defs)

lemma capacitorCancel_state:
  "\<not> arrived (run capacitorEnv capacitorCancel readyToStart) \<and>
   \<not> tracking (run capacitorEnv capacitorCancel readyToStart) \<and>
   destination (run capacitorEnv capacitorCancel readyToStart) = None \<and>
   updateCount (run capacitorEnv capacitorCancel readyToStart) = 0 \<and>
   currentLocation (run capacitorEnv capacitorCancel readyToStart) = None \<and>
   capacitorWatches (run capacitorEnv capacitorCancel readyToStart) = [1] \<and>
   pending (run capacitorEnv capacitorCancel readyToStart) = [AwaitClearWatch 1]"
  by (simp add: capacitorCancel_def readyToStart_def capacitorEnv_def origin_def atOrigin_def
      model_defs)

theorem late_fix_recorded_without_arrival_witness:
  "arrived (run capacitorEnv capacitorArrival readyToStart) \<and>
   updateCount (applyPosition (Some at500) (run capacitorEnv capacitorArrival readyToStart)) = 2 \<and>
   currentLocation (applyPosition (Some at500) (run capacitorEnv capacitorArrival readyToStart))
     = Some at500 \<and>
   arrivalSends (tripCallback_resume capacitorEnv at500
       (run capacitorEnv capacitorArrival readyToStart))
     = arrivalSends (run capacitorEnv capacitorArrival readyToStart) \<and>
   destination (run capacitorEnv capacitorCancel readyToStart) = None \<and>
   updateCount (applyPosition (Some atOrigin) (run capacitorEnv capacitorCancel readyToStart)) = 1 \<and>
   \<not> arrived (tripCallback_resume capacitorEnv atOrigin
       (run capacitorEnv capacitorCancel readyToStart))"
  using capacitorArrival_state capacitorCancel_state
    late_fix_recorded_without_arrival [of "run capacitorEnv capacitorArrival readyToStart"
      at500 capacitorEnv]
    late_fix_recorded_without_arrival [of "run capacitorEnv capacitorCancel readyToStart"
      atOrigin capacitorEnv]
  by simp

text \<open>
  C2 as stated fails: after arrival, and after a cancel, the Capacitor watch whose
  \<open>clearWatch\<close> is still pending delivers a fix; \<open>updateCount\<close> and \<open>currentLocation\<close>
  change and the fix is shown.
\<close>

theorem late_fix_not_ignored_counterexample:
  "arrived (run capacitorEnv capacitorArrival readyToStart) \<and>
   \<not> tracking (run capacitorEnv capacitorArrival readyToStart) \<and>
   updateCount (run capacitorEnv capacitorArrival readyToStart) = 1 \<and>
   currentLocation (run capacitorEnv capacitorArrival readyToStart) = Some atOrigin \<and>
   updateCount (step capacitorEnv (CapacitorWatchFix 1 (Some at500))
      (run capacitorEnv capacitorArrival readyToStart)) = 2 \<and>
   currentLocation (step capacitorEnv (CapacitorWatchFix 1 (Some at500))
      (run capacitorEnv capacitorArrival readyToStart)) = Some at500 \<and>
   ShowFix at500 2 \<in> set (effects (step capacitorEnv (CapacitorWatchFix 1 (Some at500))
      (run capacitorEnv capacitorArrival readyToStart))) \<and>
   \<not> tracking (run capacitorEnv capacitorCancel readyToStart) \<and>
   updateCount (run capacitorEnv capacitorCancel readyToStart) = 0 \<and>
   updateCount (step capacitorEnv (CapacitorWatchFix 1 (Some at500))
      (run capacitorEnv capacitorCancel readyToStart)) = 1"
proof -
  have a: "step capacitorEnv (CapacitorWatchFix 1 (Some at500))
      (run capacitorEnv capacitorArrival readyToStart)
      = applyPosition (Some at500) (run capacitorEnv capacitorArrival readyToStart)"
    using capacitorArrival_state by simp
  have c: "step capacitorEnv (CapacitorWatchFix 1 (Some at500))
      (run capacitorEnv capacitorCancel readyToStart)
      = applyPosition (Some at500) (run capacitorEnv capacitorCancel readyToStart)"
    using capacitorCancel_state by simp
  show ?thesis
    unfolding a c
    using capacitorArrival_state capacitorCancel_state
      applyPosition_recorded [of at500 "run capacitorEnv capacitorArrival readyToStart"]
      applyPosition_recorded [of at500 "run capacitorEnv capacitorCancel readyToStart"]
    by (simp add: numeral_2_eq_2)
qed

subsection \<open>The order of the strategies\<close>

lemma poll_started:
  "pollIntervalId (startCapacitorTracking_poll cb w) = Some (nextHandle w) \<and>
   nextHandle w \<in> set (timers (startCapacitorTracking_poll cb w)) \<and>
   pending (startCapacitorTracking_poll cb w) = pending w \<and>
   watchId (startCapacitorTracking_poll cb w) = watchId w \<and>
   capacitorWatches (startCapacitorTracking_poll cb w) = capacitorWatches w \<and>
   backgroundWatchers (startCapacitorTracking_poll cb w) = backgroundWatchers w \<and>
   backgroundWatcherId (startCapacitorTracking_poll cb w) = backgroundWatcherId w"
  by (simp add: startCapacitorTracking_poll_def Let_def split: option.splits)

text \<open>
  C3, amended. In the native app the background watcher is requested first and nothing
  else with it; without the plugin, or when \<open>addWatcher\<close> is rejected, the foreground
  watch is requested instead. Once the background watcher has been added, or the
  foreground watch has been set up, the poll timer is started and registered. When the
  foreground watch is rejected no timer is started. In the browser only the watch is
  registered: no timer, nothing awaited.
\<close>

theorem strategy_order:
  "(capacitor e \<and> capGeo e \<and> bgGeo e \<longrightarrow>
      LocationService_startTracking e cb w
        = suspend (AwaitAddWatcher cb) (emit (Console ''Configuring background geolocation...'') w)) \<and>
   (capacitor e \<and> capGeo e \<and> \<not> bgGeo e \<longrightarrow>
      LocationService_startTracking e cb w
        = suspend (AwaitWatchPosition cb)
            (emit (Console ''BackgroundGeolocation plugin not available'') w)) \<and>
   pending (addWatcher_settled cb Rejected w) = pending w @ [AwaitWatchPosition cb] \<and>
   timers (addWatcher_settled cb Rejected w) = timers w \<and>
   backgroundWatchers (addWatcher_settled cb Fulfilled w) = backgroundWatchers w @ [nextHandle w] \<and>
   backgroundWatcherId (addWatcher_settled cb Fulfilled w) = Some (nextHandle w) \<and>
   pending (addWatcher_settled cb Fulfilled w) = pending w \<and>
   capacitorWatches (addWatcher_settled cb Fulfilled w) = capacitorWatches w \<and>
   pollIntervalId (addWatcher_settled cb Fulfilled w) = Some (Suc (nextHandle w)) \<and>
   Suc (nextHandle w) \<in> set (timers (addWatcher_settled cb Fulfilled w)) \<and>
   capacitorWatches (watchPosition_settled cb Fulfilled w) = capacitorWatches w @ [nextHandle w] \<and>
   watchId (watchPosition_settled cb Fulfilled w) = Some (nextHandle w) \<and>
   pollIntervalId (watchPosition_settled cb Fulfilled w) = Some (Suc (nextHandle w)) \<and>
   Suc (nextHandle w) \<in> set (timers (watchPosition_settled cb Fulfilled w)) \<and>
   timers (watchPosition_settled cb Rejected w) = timers w \<and>
   pollIntervalId (watchPosition_settled cb Rejected w) = pollIntervalId w \<and>
   watchId (watchPosition_settled cb Rejected w) = watchId w \<and>
   (\<not> (capacitor e \<and> capGeo e) \<and> navGeo e \<longrightarrow>
      browserWatches (LocationService_startTracking e cb w) = browserWatches w @ [nextHandle w] \<and>
      watchId (LocationService_startTracking e cb w) = Some (nextHandle w) \<and>
      timers (LocationService_startTracking e cb w) = timers w \<and>
      pollIntervalId (LocationService_startTracking e cb w) = pollIntervalId w \<and>
      pending (LocationService_startTracking e cb w) = pending w)"
proof -
  have a: "capacitor e \<and> capGeo e \<and> bgGeo e \<longrightarrow>
      LocationService_startTracking e cb w
        = suspend (AwaitAddWatcher cb) (emit (Console ''Configuring background geolocation...'') w)"
    by (simp add: LocationService_startTracking_def startCapacitorTracking_def)
  have b: "capacitor e \<and> capGeo e \<and> \<not> bgGeo e \<longrightarrow>
      LocationService_startTracking e cb w
        = suspend (AwaitWatchPosition cb)
            (emit (Console ''BackgroundGeolocation plugin not available'') w)"
    by (simp add: LocationService_startTracking_def startCapacitorTracking_def
        startCapacitorTracking_foreground_def)
  have c: "pending (addWatcher_settled cb Rejected w) = pending w @ [AwaitWatchPosition cb] \<and>
     timers (addWatcher_settled cb Rejected w) = timers w"
    by (simp add: addWatcher_settled_def startCapacitorTracking_foreground_def emit_def suspend_def)
  have d: "backgroundWatchers (addWatcher_settled cb Fulfilled w) = backgroundWatchers w @ [nextHandle w] \<and>
     backgroundWatcherId (addWatcher_settled cb Fulfilled w) = Some (nextHandle w) \<and>
     pending (addWatcher_settled cb Fulfilled w) = pending w \<and>
     capacitorWatches (addWatcher_settled cb Fulfilled w) = capacitorWatches w \<and>
     pollIntervalId (addWatcher_settled cb Fulfilled w) = Some (Suc (nextHandle w)) \<and>
     Suc (nextHandle w) \<in> set (timers (addWatcher_settled cb Fulfilled w))"
    using poll_started [of cb "emit (Console ''Background tracking started successfully'')
        (emit ShowTrackingBanner (emit (Console ''Background geolocation watcher added'')
          (w\<lparr>backgroundWatchers := backgroundWatchers w @ [nextHandle w],
             nextHandle := Suc (nextHandle w), backgroundWatcherId := Some (nextHandle w),
             backgroundTrackingActive := True\<rparr>)))"]
    by (simp add: addWatcher_settled_def Let_def emit_def)
  have f: "capacitorWatches (watchPosition_settled cb Fulfilled w) = capacitorWatches w @ [nextHandle w] \<and>
     watchId (watchPosition_settled cb Fulfilled w) = Some (nextHandle w) \<and>
     pollIntervalId (watchPosition_settled cb Fulfilled w) = Some (Suc (nextHandle w)) \<and>
     Suc (nextHandle w) \<in> set (timers (watchPosition_settled cb Fulfilled w))"
    using poll_started [of cb "w\<lparr>capacitorWatches := capacitorWatches w @ [nextHandle w],
        nextHandle := Suc (nextHandle w), watchId := Some (nextHandle w)\<rparr>"]
    by (simp add: watchPosition_settled_def Let_def)
  have g: "timers (watchPosition_settled cb Rejected w) = timers w \<and>
     pollIntervalId (watchPosition_settled cb Rejected w) = pollIntervalId w \<and>
     watchId (watchPosition_settled cb Rejected w) = watchId w"
    by (simp add: watchPosition_settled_def emit_def)
  have h: "\<not> (capacitor e \<and> capGeo e) \<and> navGeo e \<longrightarrow>
      browserWatches (LocationService_startTracking e cb w) = browserWatches w @ [nextHandle w] \<and>
      watchId (LocationService_startTracking e cb w) = Some (nextHandle w) \<and>
      timers (LocationService_startTracking e cb w) = timers w \<and>
      pollIntervalId (LocationService_startTracking e cb w) = pollIntervalId w \<and>
      pending (LocationService_startTracking e cb w) = pending w"
    by (auto simp: LocationService_startTracking_def Let_def)
  from a b c d f g h show ?thesis by blast
qed

theorem strategy_order_witness:
  "capacitor backgroundEnv \<and> capGeo backgroundEnv \<and> bgGeo backgroundEnv \<and>
   pending (LocationService_startTracking backgroundEnv TripCallback AppState_init)
     = [AwaitAddWatcher TripCallback] \<and>
   capacitor capacitorEnv \<and> capGeo capacitorEnv \<and> \<not> bgGeo capacitorEnv \<and>
   pending (LocationService_startTracking capacitorEnv TripCallback AppState_init)
     = [AwaitWatchPosition TripCallback] \<and>
   pollIntervalId (addWatcher_settled TripCallback Fulfilled AppState_init) = Some 2 \<and>
   pollIntervalId (watchPosition_settled TripCallback Fulfilled AppState_init) = Some 2 \<and>
   timers (watchPosition_settled TripCallback Rejected AppState_init) = [] \<and>
   \<not> (capacitor browserEnv \<and> capGeo browserEnv) \<and> navGeo browserEnv \<and>
   watchId (LocationService_startTracking browserEnv TripCallback AppState_init) = Some 1 \<and>
   timers (LocationService_startTracking browserEnv TripCallback AppState_init) = []"
proof -
  have e: "capacitor backgroundEnv \<and> capGeo backgroundEnv \<and> bgGeo backgroundEnv \<and>
     capacitor capacitorEnv \<and> capGeo capacitorEnv \<and> \<not> bgGeo capacitorEnv \<and>
     \<not> (capacitor browserEnv \<and> capGeo browserEnv) \<and> navGeo browserEnv"
    by (simp add: backgroundEnv_def capacitorEnv_def browserEnv_def)
  have i: "pending AppState_init = [] \<and> timers AppState_init = [] \<and> nextHandle AppState_init = 1"
    by (simp add: AppState_init_def)
  from strategy_order [of backgroundEnv TripCallback AppState_init]
    strategy_order [of capacitorEnv TripCallback AppState_init]
    strategy_order [of browserEnv TripCallback AppState_init] e i
  show ?thesis by (simp add: emit_def suspend_def)
qed

text \<open>
  C3 as stated fails: in the browser, and in the native app whose foreground watch is
  rejected, tracking is on and no poll timer exists.
\<close>

theorem poll_not_unconditional_counterexample:
  "tracking (run browserEnv startAccepted readyToStart) \<and>
   watchId (run browserEnv startAccepted readyToStart) = Some 1 \<and>
   browserWatches (run browserEnv startAccepted readyToStart) = [1] \<and>
   pollIntervalId (run browserEnv startAccepted readyToStart) = None \<and>
   timers (run browserEnv startAccepted readyToStart) = [] \<and>
   pending (run browserEnv startAccepted readyToStart) = [] \<and>
   tracking (run capacitorEnv capacitorStartFails readyToStart) \<and>
   pollIntervalId (run capacitorEnv capacitorStartFails readyToStart) = None \<and>
   timers (run capacitorEnv capacitorStartFails readyToStart) = [] \<and>
   pending (run capacitorEnv capacitorStartFails readyToStart) = []"
  by (simp add: startAccepted_def capacitorStartFails_def readyToStart_def browserEnv_def
      capacitorEnv_def model_defs)

subsection \<open>Teardown\<close>

lemma cancel_total_when_accepted:
  "pollIntervalId (run backgroundEnv backgroundCancelAccepted readyToStart) = None \<and>
   timers (run backgroundEnv backgroundCancelAccepted readyToStart) = [] \<and>
   watchId (run backgroundEnv backgroundCancelAccepted readyToStart) = None \<and>
   wakeLock (run backgroundEnv backgroundCancelAccepted readyToStart) = None \<and>
   wakeLocks (run backgroundEnv backgroundCancelAccepted readyToStart) = [] \<and>
   \<not> backgroundTrackingActive (run backgroundEnv backgroundCancelAccepted readyToStart) \<and>
   backgroundWatcherId (run backgroundEnv backgroundCancelAccepted readyToStart) = None \<and>
   backgroundWatchers (run backgroundEnv backgroundCancelAccepted readyToStart) = []"
  by (simp add: backgroundCancelAccepted_def readyToStart_def backgroundEnv_def model_defs)

text \<open>
  C4. The code at the failing input: a trip with a background watcher is cancelled and
  the platform rejects \<open>removeWatcher\<close>. When \<open>stopTracking\<close> and the wake-lock
  release have completed, the poll timer, \<open>watchId\<close> and the wake lock are cleared,
  but \<open>backgroundTrackingActive\<close> is still set and \<open>backgroundWatcherId\<close> still holds the
  watcher, which stays registered.
\<close>

theorem cancel_leaves_background_active:
  "pollIntervalId (run backgroundEnv backgroundCancelRejected readyToStart) = None \<and>
   timers (run backgroundEnv backgroundCancelRejected readyToStart) = [] \<and>
   watchId (run backgroundEnv backgroundCancelRejected readyToStart) = None \<and>
   wakeLock (run backgroundEnv backgroundCancelRejected readyToStart) = None \<and>
   wakeLocks (run backgroundEnv backgroundCancelRejected readyToStart) = [] \<and>
   pending (run backgroundEnv backgroundCancelRejected readyToStart) = [] \<and>
   backgroundTrackingActive (run backgroundEnv backgroundCancelRejected readyToStart) \<and>
   backgroundWatcherId (run backgroundEnv backgroundCancelRejected readyToStart) = Some 1 \<and>
   backgroundWatchers (run backgroundEnv backgroundCancelRejected readyToStart) = [1]"
  by (simp add: backgroundCancelRejected_def readyToStart_def backgroundEnv_def model_defs)

subsection \<open>Subscriptions after the app becomes active again\<close>

text \<open>
  C7. The code at the failing input: a trip runs on the foreground watch and the app
  becomes active again. \<open>appStateChange\<close> calls \<open>LocationService.startTracking\<close> again;
  the poll timer is replaced, but the first watch is never cleared, and two watch
  subscriptions are registered. With the background plugin the same happens to the
  background watcher.
\<close>

theorem foreground_restart_two_watches:
  "tracking (run capacitorEnv foregroundTwice readyToStart) \<and>
   capacitorWatches (run capacitorEnv foregroundTwice readyToStart) = [1, 3] \<and>
   watchId (run capacitorEnv foregroundTwice readyToStart) = Some 3 \<and>
   timers (run capacitorEnv foregroundTwice readyToStart) = [4] \<and>
   pending (run capacitorEnv foregroundTwice readyToStart) = [] \<and>
   tracking (run backgroundEnv backgroundTwice readyToStart) \<and>
   backgroundWatchers (run backgroundEnv backgroundTwice readyToStart) = [1, 3] \<and>
   backgroundWatcherId (run backgroundEnv backgroundTwice readyToStart) = Some 3 \<and>
   timers (run backgroundEnv backgroundTwice readyToStart) = [4]"
  by (simp add: foregroundTwice_def backgroundTwice_def readyToStart_def capacitorEnv_def
      backgroundEnv_def model_defs)

end
